theory Spec2Isabelle
  imports Main "HOL-Library.Word"
begin

section \<open>Data model of the reconciler (internal/provider/all\_resource.go)\<close>

text \<open>
  A Go \<open>error\<close> value is represented by its message; \<open>nil\<close> is \<open>None\<close> of
  \<open>error option\<close>.
\<close>

type_synonym error = string

text \<open>
  A run-time panic. The only one the modelled code can raise is the dereference of a nil
  pointer (\<open>r.client\<close>, an element of the listing, \<open>*repo.Name\<close>, \<open>*repo.ID\<close>).
\<close>

datatype panic = NilPointerDereference

text \<open>
  \<open>types.Int64\<close> of the plugin framework: null, unknown, or a known 64-bit value.
\<close>

datatype types_Int64 = Int64Null | Int64Unknown | Int64Value "64 word"

text \<open>
  \<open>allResourceRepoModel\<close>: the struct has the single field \<open>ID\<close>; it is called
  \<open>StateID\<close> here, the name \<open>ID\<close> being taken by the field of \<open>github.Repository\<close>.
\<close>

record allResourceRepoModel =
  StateID :: types_Int64

text \<open>
  \<open>github.Repository\<close>, restricted to the two fields the code reads. Both are pointers
  in Go (\<open>*string\<close>, \<open>*int64\<close>), so both may be nil.
\<close>

record Repository =
  Name :: "string option"
  ID :: "64 word option"

text \<open>
  \<open>github.RepositoryListByOrgOptions\<close> with the embedded \<open>ListOptions\<close>: the fields the
  code sets (\<open>Sort\<close>, \<open>PerPage\<close>, \<open>Page\<close>); \<open>Type\<close> and \<open>Direction\<close> keep their zero
  value throughout and are left out. \<open>github.Response\<close> is restricted to \<open>NextPage\<close>.
\<close>

record RepositoryListByOrgOptions =
  Sort :: string
  PerPage :: int
  Page :: int

record Response =
  NextPage :: int

text \<open>
  \<open>*github.Client\<close>: the one capability used, \<open>Repositories.ListByOrg(ctx, owner, opt)\<close>.
  It belongs to the go-github library and is a parameter of the model. The Go call returns
  \<open>(repos, resp, err)\<close>; the code looks at \<open>err\<close> first and at the other two only
  when \<open>err\<close> is nil, hence the sum. The elements of the returned slice are pointers
  (\<open>[]*github.Repository\<close>), hence \<open>Repository option\<close>. The answer is a function of the
  account and the options: the remote listing is fixed during a call.
\<close>

record github_Client =
  ListByOrg :: "string \<Rightarrow> RepositoryListByOrgOptions
                  \<Rightarrow> error + (Repository option list \<times> Response)"

text \<open>\<open>allResource\<close>: the \<open>client\<close> pointer is nil until \<open>Configure\<close> has set it.\<close>

record allResource =
  owner :: string
  client :: "github_Client option"

type_synonym stateRepos = "string \<rightharpoonup> allResourceRepoModel"

section \<open>readRepositories\<close>

text \<open>The options built at lines 45-48; \<open>Page\<close> has its zero value.\<close>

definition initial_opt :: RepositoryListByOrgOptions where
  "initial_opt = \<lparr>Sort = ''full_name'', PerPage = 100, Page = 0\<rparr>"

text \<open>
  The fetch loop of lines 49-60. \<open>allRepos\<close> is the accumulator of the source;
  \<open>reqs\<close> records, in order, the options of every \<open>ListByOrg\<close> call issued so far (the
  effect of the loop on the remote service). The loop has no bound of its own: against a
  remote that always announces a further page it never returns, which is the value \<open>None\<close>.
\<close>

partial_function (option) fetch_pages ::
  "github_Client \<Rightarrow> string \<Rightarrow> RepositoryListByOrgOptions \<Rightarrow> Repository option list
     \<Rightarrow> RepositoryListByOrgOptions list
     \<Rightarrow> (RepositoryListByOrgOptions list \<times> (error + Repository option list)) option"
where
  "fetch_pages c ownr opt allRepos reqs =
     (case ListByOrg c ownr opt of
        Inl err \<Rightarrow> Some (reqs @ [opt], Inl err)
      | Inr (repos, gresp) \<Rightarrow>
          if NextPage gresp = 0 then Some (reqs @ [opt], Inr (allRepos @ repos))
          else fetch_pages c ownr (opt\<lparr>Page := NextPage gresp\<rparr>) (allRepos @ repos)
                 (reqs @ [opt]))"

text \<open>
  The merge loop of lines 64-71. A name that is not a key of the map is skipped before
  \<open>*repo.ID\<close> is evaluated.
\<close>

fun set_repos :: "Repository option list \<Rightarrow> stateRepos \<Rightarrow> panic + stateRepos" where
  "set_repos [] m = Inr m"
| "set_repos (None # rs) m = Inl NilPointerDereference"
| "set_repos (Some repo # rs) m =
     (case Name repo of
        None \<Rightarrow> Inl NilPointerDereference
      | Some n \<Rightarrow>
          (case m n of
             None \<Rightarrow> set_repos rs m
           | Some old \<Rightarrow>
               (case ID repo of
                  None \<Rightarrow> Inl NilPointerDereference
                | Some i \<Rightarrow> set_repos rs (m(n \<mapsto> \<lparr>StateID = Int64Value i\<rparr>)))))"

text \<open>
  \<open>readRepositories\<close>: the result is \<open>None\<close> when the call never returns, \<open>Inl\<close> when it
  panics, and otherwise the requests issued, the returned \<open>error\<close> and the map behind
  \<open>stateRepos\<close> as the call leaves it. Logging is left out.
\<close>

definition readRepositories ::
  "allResource \<Rightarrow> stateRepos
     \<Rightarrow> (panic + (RepositoryListByOrgOptions list \<times> error option \<times> stateRepos)) option"
where
  "readRepositories r m =
     (case client r of
        None \<Rightarrow> Some (Inl NilPointerDereference)
      | Some c \<Rightarrow>
          (case fetch_pages c (owner r) initial_opt [] [] of
             None \<Rightarrow> None
           | Some (reqs, Inl err) \<Rightarrow> Some (Inr (reqs, Some err, m))
           | Some (reqs, Inr allRepos) \<Rightarrow>
               (case set_repos allRepos m of
                  Inl p \<Rightarrow> Some (Inl p)
                | Inr m' \<Rightarrow> Some (Inr (reqs, None, m')))))"

section \<open>Data model of the provider (internal/provider/provider.go)\<close>

text \<open>\<open>types.String\<close> of the plugin framework, with the three methods the code calls.\<close>

datatype types_String = StringNull | StringUnknown | StringValue string

fun IsUnknown :: "types_String \<Rightarrow> bool" where
  "IsUnknown StringUnknown = True"
| "IsUnknown StringNull = False"
| "IsUnknown (StringValue v) = False"

fun IsNull :: "types_String \<Rightarrow> bool" where
  "IsNull StringNull = True"
| "IsNull StringUnknown = False"
| "IsNull (StringValue v) = False"

fun ValueString :: "types_String \<Rightarrow> string" where
  "ValueString (StringValue v) = v"
| "ValueString StringNull = []"
| "ValueString StringUnknown = []"

record githubreposProviderModel =
  Token :: types_String
  Owner :: types_String

text \<open>
  Diagnostics of the plugin framework (package \<open>diag\<close>), as far as the code uses them.
  A diagnostic has a severity, a summary and a detail; one added by \<open>AddAttributeError\<close>
  also carries the attribute path, here the name given to \<open>path.Root\<close>. \<open>Append\<close> skips
  a diagnostic that the collection already contains, and \<open>HasError\<close> looks for a
  diagnostic of severity error.
\<close>

datatype Severity = SeverityError | SeverityWarning

record Diagnostic =
  Severity :: Severity
  AttributePath :: "string option"
  Summary :: string
  Detail :: string

type_synonym Diagnostics = "Diagnostic list"

definition HasError :: "Diagnostics \<Rightarrow> bool" where
  "HasError ds = list_ex (\<lambda>d. Severity d = SeverityError) ds"

fun Append :: "Diagnostics \<Rightarrow> Diagnostics \<Rightarrow> Diagnostics" where
  "Append ds [] = ds"
| "Append ds (d # rest) = Append (if d \<in> set ds then ds else ds @ [d]) rest"

definition AddAttributeError :: "Diagnostics \<Rightarrow> string \<Rightarrow> string \<Rightarrow> string \<Rightarrow> Diagnostics" where
  "AddAttributeError ds root summary detail =
     Append ds [\<lparr>Severity = SeverityError, AttributePath = Some root,
                 Summary = summary, Detail = detail\<rparr>]"

definition AddError :: "Diagnostics \<Rightarrow> string \<Rightarrow> string \<Rightarrow> Diagnostics" where
  "AddError ds summary detail =
     Append ds [\<lparr>Severity = SeverityError, AttributePath = None,
                 Summary = summary, Detail = detail\<rparr>]"

text \<open>
  Modelled from the spec: the declaration of \<open>Config\<close>, the type the resource expects as
  provider data, is not among the source files. The spec's resolved configuration holds
  the client capability and the account; the two fields are named as
  \<open>allResource.Configure\<close> reads them (\<open>config.Client\<close>, \<open>config.Owner\<close>). The second is
  called \<open>ConfigOwner\<close> here, \<open>Owner\<close> being the field of the provider model.
\<close>

record Config =
  Client :: "github_Client option"
  ConfigOwner :: string

text \<open>
  The dynamic values that travel as provider data (Go's \<open>any\<close>): nil, a
  \<open>*github.Client\<close>, or a \<open>*Config\<close>. \<open>type_name\<close> is what \<open>%T\<close> prints.
\<close>

datatype any = Nil_any | GithubClientPtr github_Client | ConfigPtr Config

fun type_name :: "any \<Rightarrow> string" where
  "type_name Nil_any = ''<nil>''"
| "type_name (GithubClientPtr c) = ''*github.Client''"
| "type_name (ConfigPtr cfg) = ''*provider.Config''"

record ConfigureResponse =
  Diagnostics :: Diagnostics
  DataSourceData :: any
  ResourceData :: any

text \<open>\<open>os.Getenv\<close>: the value of the variable, empty when it is not set.\<close>

definition Getenv :: "(string \<rightharpoonup> string) \<Rightarrow> string \<Rightarrow> string" where
  "Getenv env key = (case env key of None \<Rightarrow> [] | Some v \<Rightarrow> v)"

section \<open>githubreposProvider.Configure\<close>

text \<open>The four attribute diagnostics of lines 95-100, 104-109, 134-140 and 144-150.\<close>

definition unknown_token :: Diagnostic where
  "unknown_token =
     \<lparr>Severity = SeverityError, AttributePath = Some ''token'',
      Summary = ''Unknown GitHub API Token'',
      Detail = ''The provider cannot create the GitHub API client as there is an unknown configuration value for the GitHub token. '' @
        ''Either target apply the source of the value first, set the value statically in the configuration, or use the GITHUB_TOKEN environment variable.''\<rparr>"

definition unknown_owner :: Diagnostic where
  "unknown_owner =
     \<lparr>Severity = SeverityError, AttributePath = Some ''owner'',
      Summary = ''Unknown GitHub Organization'',
      Detail = ''The provider cannot create the GitHub API client as there is an unknown configuration value for the GitHub organization name. '' @
        ''Either target apply the source of the value first, set the value statically in the configuration, or use the GITHUB_OWNER environment variable.''\<rparr>"

definition missing_token :: Diagnostic where
  "missing_token =
     \<lparr>Severity = SeverityError, AttributePath = Some ''token'',
      Summary = ''Missing GitHub Token'',
      Detail = ''The provider cannot create the GitHub API client as there is a missing or empty value for the GitHub token. '' @
        ''Set the token value in the configuration or use the GITHUB_TOKEN environment variable. '' @
        ''If either is already set, ensure the value is not empty.''\<rparr>"

definition missing_owner :: Diagnostic where
  "missing_owner =
     \<lparr>Severity = SeverityError, AttributePath = Some ''owner'',
      Summary = ''Missing GitHub Organization'',
      Detail = ''The provider cannot create the GitHub API client as there is a missing or empty value for the GitHub organization name. '' @
        ''Set the owner value in the configuration or use the GITHUB_OWNER environment variable. '' @
        ''If either is already set, ensure the value is not empty.''\<rparr>"

text \<open>Lines 94-110: the two checks for unknown values; both run.\<close>

definition unknown_checks :: "githubreposProviderModel \<Rightarrow> Diagnostics \<Rightarrow> Diagnostics" where
  "unknown_checks config ds =
     (let ds1 = (if IsUnknown (Token config)
                 then AddAttributeError ds ''token'' (Summary unknown_token) (Detail unknown_token)
                 else ds)
      in if IsUnknown (Owner config)
         then AddAttributeError ds1 ''owner'' (Summary unknown_owner) (Detail unknown_owner)
         else ds1)"

text \<open>
  Lines 119-128: the local variables \<open>token\<close> and \<open>owner\<close> (here \<open>ownr\<close>), started from
  the environment and overwritten by a configuration value that is not null.
\<close>

definition default_values ::
  "(string \<rightharpoonup> string) \<Rightarrow> githubreposProviderModel \<Rightarrow> string \<times> string"
where
  "default_values env config =
     (let token = Getenv env ''GITHUB_TOKEN'';
          ownr = Getenv env ''GITHUB_OWNER'';
          token = (if \<not> IsNull (Token config) then ValueString (Token config) else token);
          ownr = (if \<not> IsNull (Owner config) then ValueString (Owner config) else ownr)
      in (token, ownr))"

text \<open>Lines 133-151: the two checks for empty values; both run.\<close>

definition missing_checks :: "string \<Rightarrow> string \<Rightarrow> Diagnostics \<Rightarrow> Diagnostics" where
  "missing_checks token ownr ds =
     (let ds1 = (if token = []
                 then AddAttributeError ds ''token'' (Summary missing_token) (Detail missing_token)
                 else ds)
      in if ownr = []
         then AddAttributeError ds1 ''owner'' (Summary missing_owner) (Detail missing_owner)
         else ds1)"

text \<open>
  \<open>Configure\<close> of the provider. Its inputs: the process environment \<open>env\<close>; the outcome
  \<open>newClient\<close> of \<open>github.NewEnterpriseClient\<close>, which the code calls with constant
  arguments; what \<open>req.Config.Get\<close> returns, the diagnostics \<open>diags\<close> and the decoded
  \<open>config\<close>; and the response \<open>resp\<close> that the method fills in. Logging is left out.
\<close>

definition githubreposProvider_Configure ::
  "(string \<rightharpoonup> string) \<Rightarrow> error + github_Client \<Rightarrow> Diagnostics \<Rightarrow> githubreposProviderModel
     \<Rightarrow> ConfigureResponse \<Rightarrow> ConfigureResponse"
where
  "githubreposProvider_Configure env newClient diags config resp =
     (let resp1 = resp\<lparr>Diagnostics := Append (Diagnostics resp) diags\<rparr> in
      if HasError (Diagnostics resp1) then resp1
      else
        let resp2 = resp1\<lparr>Diagnostics := unknown_checks config (Diagnostics resp1)\<rparr> in
        if HasError (Diagnostics resp2) then resp2
        else
          case default_values env config of
            (token, ownr) \<Rightarrow>
              let resp3 = resp2\<lparr>Diagnostics := missing_checks token ownr (Diagnostics resp2)\<rparr> in
              if HasError (Diagnostics resp3) then resp3
              else
                (case newClient of
                   Inl err \<Rightarrow>
                     resp3\<lparr>Diagnostics :=
                       AddError (Diagnostics resp3) ''Unable to Create GitHub API Client''
                         (''An unexpected error occurred when creating the GitHub API client. '' @
                          ''If the error is not clear, please contact the provider developers.'' @
                          [CHR 0x0A, CHR 0x0A] @ ''GitHub Client Error: '' @ err)\<rparr>
                 | Inr cl \<Rightarrow>
                     resp3\<lparr>DataSourceData := GithubClientPtr cl,
                           ResourceData := GithubClientPtr cl\<rparr>))"

section \<open>allResource.Configure\<close>

text \<open>
  \<open>Configure\<close> of the resource (lines 78-95): the receiver and the diagnostics of the
  response, before and after. The type assertion \<open>req.ProviderData.(*Config)\<close> succeeds
  on a \<open>*Config\<close> only.
\<close>

fun allResource_Configure :: "allResource \<Rightarrow> any \<Rightarrow> Diagnostics \<Rightarrow> allResource \<times> Diagnostics" where
  "allResource_Configure r Nil_any ds = (r, ds)"
| "allResource_Configure r (ConfigPtr config) ds =
     (r\<lparr>client := Client config, owner := ConfigOwner config\<rparr>, ds)"
| "allResource_Configure r providerData ds =
     (r, AddError ds ''Unexpected Data Source Configure Type''
           (''Expected Config, got: '' @ type_name providerData @
            ''. Please report this issue to the provider developers.''))"

section \<open>Notions used to state the properties\<close>

text \<open>A record of the listing is named \<open>k\<close>: it is not nil and its \<open>Name\<close> points to \<open>k\<close>.\<close>

definition is_named :: "string \<Rightarrow> Repository option \<Rightarrow> bool" where
  "is_named k p = (case p of None \<Rightarrow> False | Some repo \<Rightarrow> Name repo = Some k)"

text \<open>A record of the listing without a nil pointer: the merge loop can read it.\<close>

definition well_formed :: "Repository option \<Rightarrow> bool" where
  "well_formed p = (case p of None \<Rightarrow> False | Some repo \<Rightarrow> Name repo \<noteq> None \<and> ID repo \<noteq> None)"

text \<open>
  The options of request number \<open>n\<close> (from 0) of a fetch that starts with \<open>opt\<close>, when
  the fetch gets that far: there is a next request only after a page that was fetched
  without error and announced a further page, and it asks for that page.
\<close>

fun request_at ::
  "github_Client \<Rightarrow> string \<Rightarrow> RepositoryListByOrgOptions \<Rightarrow> nat
     \<Rightarrow> RepositoryListByOrgOptions option"
where
  "request_at c ownr opt 0 = Some opt"
| "request_at c ownr opt (Suc n) =
     (case ListByOrg c ownr opt of
        Inl err \<Rightarrow> None
      | Inr (repos, gresp) \<Rightarrow>
          if NextPage gresp = 0 then None
          else request_at c ownr (opt\<lparr>Page := NextPage gresp\<rparr>) n)"

text \<open>
  \<open>page_walk c ownr opt qs\<close>: the requests \<open>qs\<close> are exactly the requests number
  \<open>0, 1, \<dots>\<close> of a fetch starting with \<open>opt\<close>, up to the one after which there is no
  further request.
\<close>

definition page_walk ::
  "github_Client \<Rightarrow> string \<Rightarrow> RepositoryListByOrgOptions \<Rightarrow> RepositoryListByOrgOptions list
     \<Rightarrow> bool"
where
  "page_walk c ownr opt qs \<longleftrightarrow>
     qs \<noteq> [] \<and> map (request_at c ownr opt) [0..<length qs] = map Some qs
       \<and> request_at c ownr opt (length qs) = None"

text \<open>The records of the page a request returns, and of the pages a list of requests returns.\<close>

definition page_records ::
  "github_Client \<Rightarrow> string \<Rightarrow> RepositoryListByOrgOptions \<Rightarrow> Repository option list"
where
  "page_records c ownr opt =
     (case ListByOrg c ownr opt of Inl err \<Rightarrow> [] | Inr (repos, gresp) \<Rightarrow> repos)"

definition listing ::
  "github_Client \<Rightarrow> string \<Rightarrow> RepositoryListByOrgOptions list \<Rightarrow> Repository option list"
where
  "listing c ownr reqs = concat (map (page_records c ownr) reqs)"

text \<open>What a returning fetch loop has done, in these terms.\<close>

definition fetched_from ::
  "github_Client \<Rightarrow> string \<Rightarrow> RepositoryListByOrgOptions \<Rightarrow> Repository option list
     \<Rightarrow> RepositoryListByOrgOptions list
     \<Rightarrow> RepositoryListByOrgOptions list \<times> (error + Repository option list) \<Rightarrow> bool"
where
  "fetched_from c ownr opt allRepos reqs y \<longleftrightarrow>
     (\<exists>qs. fst y = reqs @ qs \<and> page_walk c ownr opt qs
        \<and> (case snd y of
              Inl err \<Rightarrow> ListByOrg c ownr (last qs) = Inl err
            | Inr rs \<Rightarrow> rs = allRepos @ listing c ownr qs))"

section \<open>Example inputs\<close>

text \<open>Inputs at which the properties below are instantiated.\<close>

definition alpha_beta :: stateRepos where
  "alpha_beta = [''alpha'' \<mapsto> \<lparr>StateID = Int64Null\<rparr>, ''beta'' \<mapsto> \<lparr>StateID = Int64Null\<rparr>]"

definition one_page_client :: github_Client where
  "one_page_client =
     \<lparr>ListByOrg = (\<lambda>ownr opt.
        Inr ([Some \<lparr>Name = Some ''alpha'', ID = Some 1\<rparr>, Some \<lparr>Name = Some ''gamma'', ID = Some 3\<rparr>],
             \<lparr>NextPage = 0\<rparr>))\<rparr>"

definition acme :: "github_Client \<Rightarrow> allResource" where
  "acme c = \<lparr>owner = ''acme'', client = Some c\<rparr>"

definition failing_client :: github_Client where
  "failing_client =
     \<lparr>ListByOrg = (\<lambda>ownr opt.
        if Page opt = 0 then Inr ([Some \<lparr>Name = Some ''alpha'', ID = Some 1\<rparr>], \<lparr>NextPage = 2\<rparr>)
        else if Page opt = 2 then Inl ''502 Bad Gateway''
        else Inr ([Some \<lparr>Name = Some ''beta'', ID = Some 2\<rparr>], \<lparr>NextPage = 0\<rparr>))\<rparr>"

definition duplicates_client :: github_Client where
  "duplicates_client =
     \<lparr>ListByOrg = (\<lambda>ownr opt.
        Inr ([Some \<lparr>Name = Some ''alpha'', ID = Some 1\<rparr>, Some \<lparr>Name = Some ''beta'', ID = Some 5\<rparr>,
              Some \<lparr>Name = Some ''alpha'', ID = Some 2\<rparr>, Some \<lparr>Name = Some ''gamma'', ID = Some 7\<rparr>],
             \<lparr>NextPage = 0\<rparr>))\<rparr>"

definition example_repo :: "nat \<Rightarrow> Repository option" where
  "example_repo i = Some \<lparr>Name = Some (replicate (Suc i) CHR ''r''), ID = Some (of_nat i)\<rparr>"

definition three_page_client :: github_Client where
  "three_page_client =
     \<lparr>ListByOrg = (\<lambda>ownr opt.
        if Page opt = 0 then Inr (map example_repo [0..<100], \<lparr>NextPage = 2\<rparr>)
        else if Page opt = 2 then Inr (map example_repo [100..<200], \<lparr>NextPage = 3\<rparr>)
        else Inr (map example_repo [200..<240], \<lparr>NextPage = 0\<rparr>))\<rparr>"

definition last_of_three_pages :: stateRepos where
  "last_of_three_pages = [replicate 240 CHR ''r'' \<mapsto> \<lparr>StateID = Int64Null\<rparr>]"

definition alpha_only :: stateRepos where
  "alpha_only = [''alpha'' \<mapsto> \<lparr>StateID = Int64Unknown\<rparr>]"

definition empty_response :: ConfigureResponse where
  "empty_response = \<lparr>Diagnostics = [], DataSourceData = Nil_any, ResourceData = Nil_any\<rparr>"

definition both_unknown :: githubreposProviderModel where
  "both_unknown = \<lparr>Token = StringUnknown, Owner = StringUnknown\<rparr>"

definition token_unknown :: githubreposProviderModel where
  "token_unknown = \<lparr>Token = StringUnknown, Owner = StringNull\<rparr>"

definition both_null :: githubreposProviderModel where
  "both_null = \<lparr>Token = StringNull, Owner = StringNull\<rparr>"

definition token_null :: githubreposProviderModel where
  "token_null = \<lparr>Token = StringNull, Owner = StringValue ''acme''\<rparr>"

definition both_set :: githubreposProviderModel where
  "both_set = \<lparr>Token = StringValue ''cfgtoken'', Owner = StringValue ''acme''\<rparr>"

definition token_env :: "string \<rightharpoonup> string" where
  "token_env = [''GITHUB_TOKEN'' \<mapsto> ''envtoken'', ''GITHUB_OWNER'' \<mapsto> ''envowner'']"

definition empty_token :: githubreposProviderModel where
  "empty_token = \<lparr>Token = StringValue [], Owner = StringValue ''acme''\<rparr>"

section \<open>The merge loop\<close>

text \<open>One iteration of the merge loop that does not panic.\<close>

lemma set_repos_Cons:
  "set_repos (p # rs) m = Inr m' \<longleftrightarrow>
     (\<exists>repo n. p = Some repo \<and> Name repo = Some n \<and>
        (case m n of
           None \<Rightarrow> set_repos rs m = Inr m'
         | Some old \<Rightarrow> (\<exists>i. ID repo = Some i \<and>
             set_repos rs (m(n \<mapsto> \<lparr>StateID = Int64Value i\<rparr>)) = Inr m')))"
  by (cases p) (auto split: option.splits)

lemma set_repos_dom: "set_repos rs m = Inr m' \<Longrightarrow> dom m' = dom m"
proof (induction rs arbitrary: m)
  case Nil
  then show ?case by simp
next
  case (Cons p rs)
  from Cons.prems obtain repo n where n: "p = Some repo" "Name repo = Some n"
    and c: "case m n of None \<Rightarrow> set_repos rs m = Inr m'
         | Some old \<Rightarrow> (\<exists>i. ID repo = Some i \<and>
             set_repos rs (m(n \<mapsto> \<lparr>StateID = Int64Value i\<rparr>)) = Inr m')"
    unfolding set_repos_Cons by blast
  show ?case
  proof (cases "m n")
    case None
    with c show ?thesis by (simp add: Cons.IH)
  next
    case (Some old)
    with c obtain i where "set_repos rs (m(n \<mapsto> \<lparr>StateID = Int64Value i\<rparr>)) = Inr m'"
      by auto
    then have "dom m' = dom (m(n \<mapsto> \<lparr>StateID = Int64Value i\<rparr>))" by (rule Cons.IH)
    with Some show ?thesis by auto
  qed
qed

lemma set_repos_unnamed:
  "set_repos rs m = Inr m' \<Longrightarrow> list_all (\<lambda>p. \<not> is_named k p) rs \<Longrightarrow> m' k = m k"
proof (induction rs arbitrary: m)
  case Nil
  then show ?case by simp
next
  case (Cons p rs)
  from Cons.prems(1) obtain repo n where n: "p = Some repo" "Name repo = Some n"
    and c: "case m n of None \<Rightarrow> set_repos rs m = Inr m'
         | Some old \<Rightarrow> (\<exists>i. ID repo = Some i \<and>
             set_repos rs (m(n \<mapsto> \<lparr>StateID = Int64Value i\<rparr>)) = Inr m')"
    unfolding set_repos_Cons by blast
  from Cons.prems(2) n have kn: "k \<noteq> n" and rs: "list_all (\<lambda>p. \<not> is_named k p) rs"
    by (auto simp: is_named_def)
  show ?case
  proof (cases "m n")
    case None
    with c rs show ?thesis by (simp add: Cons.IH)
  next
    case (Some old)
    with c obtain i where "set_repos rs (m(n \<mapsto> \<lparr>StateID = Int64Value i\<rparr>)) = Inr m'"
      by auto
    then have "m' k = (m(n \<mapsto> \<lparr>StateID = Int64Value i\<rparr>)) k" using rs by (rule Cons.IH)
    with kn show ?thesis by simp
  qed
qed

lemma set_repos_append:
  "set_repos (xs @ ys) m = (case set_repos xs m of Inl p \<Rightarrow> Inl p | Inr m1 \<Rightarrow> set_repos ys m1)"
proof (induction xs arbitrary: m)
  case Nil
  show ?case by simp
next
  case (Cons p xs)
  show ?case
  proof (cases p)
    case None
    then show ?thesis by simp
  next
    case p: (Some repo)
    show ?thesis
    proof (cases "Name repo")
      case None
      with p show ?thesis by simp
    next
      case n: (Some n)
      show ?thesis
      proof (cases "m n")
        case None
        with p n show ?thesis using Cons.IH[of m] by simp
      next
        case old: (Some old)
        show ?thesis
        proof (cases "ID repo")
          case None
          with p n old show ?thesis by simp
        next
          case (Some i)
          let ?m1 = "m(n \<mapsto> \<lparr>StateID = Int64Value i\<rparr>)"
          from p n old Some have "set_repos ((p # xs) @ ys) m = set_repos (xs @ ys) ?m1"
            by simp
          also have "\<dots> = (case set_repos xs ?m1 of Inl q \<Rightarrow> Inl q | Inr m1 \<Rightarrow> set_repos ys m1)"
            by (rule Cons.IH)
          also from p n old Some have "set_repos xs ?m1 = set_repos (p # xs) m"
            by simp
          finally show ?thesis .
        qed
      qed
    qed
  qed
qed

text \<open>The last record with a given name decides the identifier of that name.\<close>

lemma set_repos_last:
  assumes "set_repos (xs @ Some repo # ys) m = Inr m'"
    and "Name repo = Some k" and "m k \<noteq> None"
    and "list_all (\<lambda>p. \<not> is_named k p) ys"
  shows "\<exists>i. ID repo = Some i \<and> m' k = Some \<lparr>StateID = Int64Value i\<rparr>"
proof -
  from assms(1) obtain m1 where m1: "set_repos xs m = Inr m1"
    and rest: "set_repos (Some repo # ys) m1 = Inr m'"
    by (auto simp: set_repos_append split: sum.splits)
  from m1 have "dom m1 = dom m" by (rule set_repos_dom)
  with assms(3) obtain old where old: "m1 k = Some old" by auto
  from rest assms(2) old obtain i where i: "ID repo = Some i"
    and ys: "set_repos ys (m1(k \<mapsto> \<lparr>StateID = Int64Value i\<rparr>)) = Inr m'"
    by (auto split: option.splits)
  from set_repos_unnamed[OF ys assms(4)] have "m' k = Some \<lparr>StateID = Int64Value i\<rparr>" by simp
  with i show ?thesis by blast
qed

lemma set_repos_named:
  assumes "set_repos rs m = Inr m'" and "m k \<noteq> None" and "list_ex (is_named k) rs"
  shows "\<exists>repo i. Some repo \<in> set rs \<and> Name repo = Some k \<and> ID repo = Some i
           \<and> m' k = Some \<lparr>StateID = Int64Value i\<rparr>"
proof -
  from assms(3) have "\<exists>p \<in> set rs. is_named k p" by (simp add: list_ex_iff)
  from split_list_last_prop[OF this]
  obtain xs p ys where rs: "rs = xs @ p # ys" and p: "is_named k p"
    and ys: "\<forall>q \<in> set ys. \<not> is_named k q"
    by blast
  from p obtain repo where repo: "p = Some repo" "Name repo = Some k"
    by (auto simp: is_named_def split: option.splits)
  from ys have "list_all (\<lambda>q. \<not> is_named k q) ys" by (simp add: list_all_iff)
  with assms(1,2) rs repo
  have "\<exists>i. ID repo = Some i \<and> m' k = Some \<lparr>StateID = Int64Value i\<rparr>"
    by (auto intro: set_repos_last)
  with rs repo show ?thesis by auto
qed

text \<open>
  The outcome of the merge loop depends on the starting map only through its keys and
  the entries of the names the listing does not mention.
\<close>

lemma set_repos_agree:
  "set_repos rs m = Inr m' \<Longrightarrow> dom m2 = dom m
     \<Longrightarrow> (\<And>k. list_all (\<lambda>p. \<not> is_named k p) rs \<Longrightarrow> m2 k = m k)
     \<Longrightarrow> set_repos rs m2 = Inr m'"
proof (induction rs arbitrary: m m2)
  case Nil
  from Nil.prems(3) have "m2 = m" by (intro ext) simp
  with Nil.prems(1) show ?case by simp
next
  case (Cons p rs)
  from Cons.prems(1) obtain repo n where n: "p = Some repo" "Name repo = Some n"
    and c: "case m n of None \<Rightarrow> set_repos rs m = Inr m'
         | Some old \<Rightarrow> (\<exists>i. ID repo = Some i \<and>
             set_repos rs (m(n \<mapsto> \<lparr>StateID = Int64Value i\<rparr>)) = Inr m')"
    unfolding set_repos_Cons by blast
  have other: "m2 k = m k" if "list_all (\<lambda>p. \<not> is_named k p) rs" and "k \<noteq> n" for k
  proof -
    from that n have "list_all (\<lambda>p. \<not> is_named k p) (p # rs)"
      by (simp add: is_named_def)
    then show ?thesis by (rule Cons.prems(3))
  qed
  show ?case
  proof (cases "m n")
    case None
    with Cons.prems(2) have m2n: "m2 n = None" by (metis domIff)
    from c None have a: "set_repos rs m = Inr m'" by simp
    have "set_repos rs m2 = Inr m'"
    proof (rule Cons.IH[OF a Cons.prems(2)])
      fix k assume k: "list_all (\<lambda>p. \<not> is_named k p) rs"
      show "m2 k = m k"
        using None m2n other[OF k] by (cases "k = n") simp_all
    qed
    with n m2n show ?thesis by simp
  next
    case (Some old)
    with Cons.prems(2) obtain old2 where m2n: "m2 n = Some old2" by (metis domIff not_Some_eq)
    from c Some obtain i where i: "ID repo = Some i"
      and a: "set_repos rs (m(n \<mapsto> \<lparr>StateID = Int64Value i\<rparr>)) = Inr m'"
      by auto
    have "set_repos rs (m2(n \<mapsto> \<lparr>StateID = Int64Value i\<rparr>)) = Inr m'"
    proof (rule Cons.IH[OF a])
      show "dom (m2(n \<mapsto> \<lparr>StateID = Int64Value i\<rparr>)) = dom (m(n \<mapsto> \<lparr>StateID = Int64Value i\<rparr>))"
        using Cons.prems(2) by simp
    next
      fix k assume k: "list_all (\<lambda>p. \<not> is_named k p) rs"
      show "(m2(n \<mapsto> \<lparr>StateID = Int64Value i\<rparr>)) k = (m(n \<mapsto> \<lparr>StateID = Int64Value i\<rparr>)) k"
        using other[OF k] by (cases "k = n") simp_all
    qed
    with n m2n i show ?thesis by simp
  qed
qed

lemma set_repos_idem: "set_repos rs m = Inr m' \<Longrightarrow> set_repos rs m' = Inr m'"
proof (rule set_repos_agree)
  assume a: "set_repos rs m = Inr m'"
  then show "set_repos rs m = Inr m'" .
  from a show "dom m' = dom m" by (rule set_repos_dom)
  fix k assume "list_all (\<lambda>p. \<not> is_named k p) rs"
  with a show "m' k = m k" by (rule set_repos_unnamed)
qed

text \<open>The merge loop does not panic on a listing without nil pointers.\<close>

lemma set_repos_total:
  "list_all well_formed rs \<Longrightarrow> \<exists>m'. set_repos rs m = Inr m'"
proof (induction rs arbitrary: m)
  case Nil
  show ?case by simp
next
  case (Cons p rs)
  from Cons.prems have wf: "well_formed p" and rs: "list_all well_formed rs"
    by simp_all
  from wf obtain repo where "p = Some repo" "Name repo \<noteq> None" "ID repo \<noteq> None"
    by (cases p) (simp_all add: well_formed_def)
  then obtain n i where p: "p = Some repo" "Name repo = Some n" "ID repo = Some i"
    by blast
  show ?case
  proof (cases "m n")
    case None
    with p Cons.IH[OF rs, of m] show ?thesis by simp
  next
    case (Some old)
    from Cons.IH[OF rs] obtain m1
      where "set_repos rs (m(n \<mapsto> \<lparr>StateID = Int64Value i\<rparr>)) = Inr m1"
      by blast
    with p Some have "set_repos (p # rs) m = Inr m1" by simp
    then show ?thesis by blast
  qed
qed

section \<open>The fetch loop\<close>

lemma map_upt_Suc_shift: "map f [0..<Suc n] = f 0 # map (\<lambda>i. f (Suc i)) [0..<n]"
  by (simp add: upt_conv_Cons map_Suc_upt[symmetric] del: upt_Suc)

lemma page_walk_error: "ListByOrg c ownr opt = Inl err \<Longrightarrow> page_walk c ownr opt [opt]"
  by (simp add: page_walk_def)

lemma page_walk_final:
  "ListByOrg c ownr opt = Inr (repos, gresp) \<Longrightarrow> NextPage gresp = 0 \<Longrightarrow> page_walk c ownr opt [opt]"
  by (simp add: page_walk_def)

lemma page_walk_next:
  assumes "ListByOrg c ownr opt = Inr (repos, gresp)" and "NextPage gresp \<noteq> 0"
    and "page_walk c ownr (opt\<lparr>Page := NextPage gresp\<rparr>) qs"
  shows "page_walk c ownr opt (opt # qs)"
proof -
  have "request_at c ownr opt (Suc i) = request_at c ownr (opt\<lparr>Page := NextPage gresp\<rparr>) i" for i
    using assms(1,2) by simp
  then show ?thesis
    using assms(3) unfolding page_walk_def
    by (simp add: map_upt_Suc_shift del: upt_Suc request_at.simps(2))
qed

text \<open>Every request of a fetch keeps the sort key and the page size of the first one.\<close>

lemma request_at_fixed:
  "request_at c ownr opt n = Some q \<Longrightarrow> Sort q = Sort opt \<and> PerPage q = PerPage opt"
proof (induction n arbitrary: opt)
  case 0
  then show ?case by simp
next
  case (Suc n)
  from Suc.prems obtain gresp :: Response
    where "request_at c ownr (opt\<lparr>Page := NextPage gresp\<rparr>) n = Some q"
    by (auto split: sum.splits if_splits)
  from Suc.IH[OF this] show ?case by simp
qed

lemma page_walk_fixed:
  assumes "page_walk c ownr opt qs"
  shows "list_all (\<lambda>q. Sort q = Sort opt \<and> PerPage q = PerPage opt) qs"
proof -
  have "Sort q = Sort opt \<and> PerPage q = PerPage opt" if "q \<in> set qs" for q
  proof -
    from that obtain i where i: "i < length qs" "qs ! i = q" by (auto simp: in_set_conv_nth)
    from assms have "map (request_at c ownr opt) [0..<length qs] ! i = map Some qs ! i"
      by (simp add: page_walk_def)
    with i have "request_at c ownr opt i = Some q" by simp
    then show ?thesis by (rule request_at_fixed)
  qed
  then show ?thesis by (simp add: list_all_iff)
qed

text \<open>A fetch that reaches a failing page returns the error of that page.\<close>

lemma fetch_pages_fails:
  "request_at c ownr opt n = Some opt' \<Longrightarrow> ListByOrg c ownr opt' = Inl err
     \<Longrightarrow> \<exists>qs. fetch_pages c ownr opt allRepos reqs = Some (reqs @ qs, Inl err)
            \<and> length qs = Suc n \<and> last qs = opt'"
proof (induction n arbitrary: opt allRepos reqs)
  case 0
  then show ?case by (simp add: fetch_pages.simps)
next
  case (Suc n)
  from Suc.prems(1) obtain repos gresp where page: "ListByOrg c ownr opt = Inr (repos, gresp)"
    and more: "NextPage gresp \<noteq> 0"
    and at: "request_at c ownr (opt\<lparr>Page := NextPage gresp\<rparr>) n = Some opt'"
    by (auto split: sum.splits if_splits)
  from Suc.IH[OF at Suc.prems(2)] obtain qs
    where qs: "fetch_pages c ownr (opt\<lparr>Page := NextPage gresp\<rparr>) (allRepos @ repos) (reqs @ [opt])
                 = Some ((reqs @ [opt]) @ qs, Inl err)"
      and len: "length qs = Suc n" and l: "last qs = opt'"
    by blast
  from page more qs have "fetch_pages c ownr opt allRepos reqs = Some (reqs @ (opt # qs), Inl err)"
    by (subst fetch_pages.simps) simp
  moreover from len l have "length (opt # qs) = Suc (Suc n)" "last (opt # qs) = opt'"
    by auto
  ultimately show ?case by blast
qed

text \<open>Whenever the fetch loop returns, it has walked the pages and accumulated them.\<close>

lemma fetch_pages_returns:
  assumes "fetch_pages c ownr opt allRepos reqs = Some y"
  shows "fetched_from c ownr opt allRepos reqs y"
proof (rule fetch_pages.raw_induct[where P = fetched_from, OF _ assms])
  fix loop c ownr opt allRepos reqs y
  assume IH: "\<And>c ownr opt allRepos reqs y.
                 loop c ownr opt allRepos reqs = Some y \<Longrightarrow> fetched_from c ownr opt allRepos reqs y"
    and body: "(case ListByOrg c ownr opt of
                  Inl err \<Rightarrow> Some (reqs @ [opt], Inl err)
                | Inr (repos, gresp) \<Rightarrow>
                    if NextPage gresp = 0 then Some (reqs @ [opt], Inr (allRepos @ repos))
                    else loop c ownr (opt\<lparr>Page := NextPage gresp\<rparr>) (allRepos @ repos)
                           (reqs @ [opt])) = Some y"
  show "fetched_from c ownr opt allRepos reqs y"
  proof (cases "ListByOrg c ownr opt")
    case (Inl err)
    with body have "y = (reqs @ [opt], Inl err)" by simp
    with Inl page_walk_error[OF Inl] show ?thesis by (auto simp: fetched_from_def)
  next
    case (Inr page)
    obtain repos gresp where page: "page = (repos, gresp)" by (cases page)
    from Inr page have pr: "page_records c ownr opt = repos"
      by (simp add: page_records_def)
    show ?thesis
    proof (cases "NextPage gresp = 0")
      case True
      with body Inr page have "y = (reqs @ [opt], Inr (allRepos @ repos))" by simp
      with pr page_walk_final[OF Inr[unfolded page] True] show ?thesis
        by (auto simp: fetched_from_def listing_def)
    next
      case False
      with body Inr page
      have "loop c ownr (opt\<lparr>Page := NextPage gresp\<rparr>) (allRepos @ repos) (reqs @ [opt]) = Some y"
        by simp
      from IH[OF this] obtain qs where qs: "fst y = (reqs @ [opt]) @ qs"
        and w: "page_walk c ownr (opt\<lparr>Page := NextPage gresp\<rparr>) qs"
        and r: "case snd y of
              Inl err \<Rightarrow> ListByOrg c ownr (last qs) = Inl err
            | Inr rs \<Rightarrow> rs = (allRepos @ repos) @ listing c ownr qs"
        unfolding fetched_from_def by blast
      from w have ne: "qs \<noteq> []" by (simp add: page_walk_def)
      have "fst y = reqs @ (opt # qs)" using qs by simp
      moreover have "page_walk c ownr opt (opt # qs)"
        using Inr[unfolded page] False w by (rule page_walk_next)
      moreover have "case snd y of
              Inl err \<Rightarrow> ListByOrg c ownr (last (opt # qs)) = Inl err
            | Inr rs \<Rightarrow> rs = allRepos @ listing c ownr (opt # qs)"
        using r ne pr by (auto simp: listing_def split: sum.splits)
      ultimately show ?thesis unfolding fetched_from_def by blast
    qed
  qed
qed

section \<open>readRepositories in terms of its two loops\<close>

lemma readRepositories_fetch_error:
  assumes "client r = Some c"
    and "fetch_pages c (owner r) initial_opt [] [] = Some (reqs, Inl err)"
  shows "readRepositories r m = Some (Inr (reqs, Some err, m))"
  using assms by (simp add: readRepositories_def)

lemma readRepositories_fetched:
  assumes "client r = Some c"
    and "fetch_pages c (owner r) initial_opt [] [] = Some (reqs, Inr allRepos)"
  shows "readRepositories r m =
           Some (case set_repos allRepos m of
                   Inl p \<Rightarrow> Inl p
                 | Inr m' \<Rightarrow> Inr (reqs, None, m'))"
  using assms by (simp add: readRepositories_def split: sum.splits)

lemma readRepositories_returns:
  assumes "client r = Some c" and "readRepositories r m = Some (Inr (reqs, e, m'))"
  shows "\<exists>res. fetch_pages c (owner r) initial_opt [] [] = Some (reqs, res)
           \<and> (case res of
                 Inl err \<Rightarrow> e = Some err \<and> m' = m
               | Inr allRepos \<Rightarrow> e = None \<and> set_repos allRepos m = Inr m')"
  using assms by (auto simp: readRepositories_def split: option.splits sum.splits)

lemma readRepositories_success:
  assumes "client r = Some c" and "readRepositories r m = Some (Inr (reqs, None, m'))"
  shows "fetch_pages c (owner r) initial_opt [] [] = Some (reqs, Inr (listing c (owner r) reqs))"
    and "set_repos (listing c (owner r) reqs) m = Inr m'"
    and "page_walk c (owner r) initial_opt reqs"
proof -
  from readRepositories_returns[OF assms] obtain res
    where f0: "fetch_pages c (owner r) initial_opt [] [] = Some (reqs, res)"
      and c: "case res of
                 Inl err \<Rightarrow> None = Some err \<and> m' = m
               | Inr allRepos \<Rightarrow> (None :: error option) = None \<and> set_repos allRepos m = Inr m'"
    by blast
  from c obtain allRepos where "res = Inr allRepos" and s: "set_repos allRepos m = Inr m'"
    by (cases res) simp_all
  with f0 have f: "fetch_pages c (owner r) initial_opt [] [] = Some (reqs, Inr allRepos)"
    by simp
  from fetch_pages_returns[OF f] have "page_walk c (owner r) initial_opt reqs"
    and "allRepos = listing c (owner r) reqs"
    by (auto simp: fetched_from_def)
  with f s show "fetch_pages c (owner r) initial_opt [] [] = Some (reqs, Inr (listing c (owner r) reqs))"
    and "set_repos (listing c (owner r) reqs) m = Inr m'"
    and "page_walk c (owner r) initial_opt reqs"
    by simp_all
qed

lemma readRepositories_client:
  assumes "readRepositories r m = Some (Inr x)"
  obtains c where "client r = Some c"
  using assms by (cases "client r") (simp_all add: readRepositories_def)

text \<open>The fetch loop returns when the page walk ends.\<close>

lemma fetch_pages_terminates:
  "request_at c ownr opt n = None \<Longrightarrow> \<exists>y. fetch_pages c ownr opt allRepos reqs = Some y"
proof (induction n arbitrary: opt allRepos reqs)
  case 0
  then show ?case by simp
next
  case (Suc n)
  show ?case
  proof (cases "ListByOrg c ownr opt")
    case (Inl err)
    then show ?thesis by (subst fetch_pages.simps) simp
  next
    case (Inr page)
    obtain repos gresp where page: "page = (repos, gresp)" by (cases page)
    show ?thesis
    proof (cases "NextPage gresp = 0")
      case True
      with Inr page show ?thesis by (subst fetch_pages.simps) simp
    next
      case False
      with Suc.prems Inr page
      have "request_at c ownr (opt\<lparr>Page := NextPage gresp\<rparr>) n = None" by simp
      from Suc.IH[OF this] obtain y
        where "fetch_pages c ownr (opt\<lparr>Page := NextPage gresp\<rparr>) (allRepos @ repos) (reqs @ [opt]) = Some y"
        by blast
      with Inr page False show ?thesis by (subst fetch_pages.simps) simp
    qed
  qed
qed

text \<open>The fetch loop on a listing of one page and of three pages.\<close>

lemma one_page_fetch:
  assumes "ListByOrg c ownr initial_opt = Inr (repos, \<lparr>NextPage = 0\<rparr>)"
  shows "fetch_pages c ownr initial_opt [] [] = Some ([initial_opt], Inr repos)"
  using assms by (subst fetch_pages.simps) simp

lemma three_page_fetch:
  assumes "ListByOrg c ownr initial_opt = Inr (p1, \<lparr>NextPage = n2\<rparr>)" and "n2 \<noteq> 0"
    and "ListByOrg c ownr (initial_opt\<lparr>Page := n2\<rparr>) = Inr (p2, \<lparr>NextPage = n3\<rparr>)" and "n3 \<noteq> 0"
    and "ListByOrg c ownr (initial_opt\<lparr>Page := n3\<rparr>) = Inr (p3, \<lparr>NextPage = 0\<rparr>)"
  shows "fetch_pages c ownr initial_opt [] [] =
           Some ([initial_opt, initial_opt\<lparr>Page := n2\<rparr>, initial_opt\<lparr>Page := n3\<rparr>],
                 Inr (p1 @ p2 @ p3))"
proof -
  have "fetch_pages c ownr (initial_opt\<lparr>Page := n3\<rparr>) (p1 @ p2)
          [initial_opt, initial_opt\<lparr>Page := n2\<rparr>] =
        Some ([initial_opt, initial_opt\<lparr>Page := n2\<rparr>, initial_opt\<lparr>Page := n3\<rparr>],
              Inr (p1 @ p2 @ p3))"
    using assms(5) by (subst fetch_pages.simps) simp
  then have "fetch_pages c ownr (initial_opt\<lparr>Page := n2\<rparr>) p1 [initial_opt] =
        Some ([initial_opt, initial_opt\<lparr>Page := n2\<rparr>, initial_opt\<lparr>Page := n3\<rparr>],
              Inr (p1 @ p2 @ p3))"
    using assms(3,4) by (subst fetch_pages.simps) simp
  then show ?thesis
    using assms(1,2) by (subst fetch_pages.simps) simp
qed

text \<open>The run on the listing \<open>[{alpha, 1}, {gamma, 3}]\<close> of one page.\<close>

lemma alpha_gamma_run:
  assumes "ListByOrg c ownr initial_opt =
             Inr ([Some \<lparr>Name = Some ''alpha'', ID = Some 1\<rparr>, Some \<lparr>Name = Some ''gamma'', ID = Some 3\<rparr>],
                  \<lparr>NextPage = 0\<rparr>)"
  shows "readRepositories \<lparr>owner = ownr, client = Some c\<rparr>
           [''alpha'' \<mapsto> \<lparr>StateID = Int64Null\<rparr>, ''beta'' \<mapsto> \<lparr>StateID = Int64Null\<rparr>] =
         Some (Inr ([initial_opt], None,
           [''alpha'' \<mapsto> \<lparr>StateID = Int64Value 1\<rparr>, ''beta'' \<mapsto> \<lparr>StateID = Int64Null\<rparr>]))"
proof -
  let ?r = "\<lparr>owner = ownr, client = Some c\<rparr>"
  have m: "[''alpha'' \<mapsto> \<lparr>StateID = Int64Null\<rparr>, ''beta'' \<mapsto> \<lparr>StateID = Int64Null\<rparr>,
            ''alpha'' \<mapsto> \<lparr>StateID = Int64Value 1\<rparr>] =
           [''alpha'' \<mapsto> \<lparr>StateID = Int64Value 1\<rparr>, ''beta'' \<mapsto> \<lparr>StateID = Int64Null\<rparr>]"
    by (rule ext) simp
  have c: "client ?r = Some c" by simp
  have f: "fetch_pages c (owner ?r) initial_opt [] [] =
             Some ([initial_opt],
               Inr [Some \<lparr>Name = Some ''alpha'', ID = Some 1\<rparr>, Some \<lparr>Name = Some ''gamma'', ID = Some 3\<rparr>])"
    using one_page_fetch[OF assms] by simp
  show ?thesis
    unfolding readRepositories_fetched[OF c f] by (simp add: m)
qed

lemma acme_alpha_beta_run:
  "readRepositories (acme one_page_client) alpha_beta =
     Some (Inr ([initial_opt], None,
       [''alpha'' \<mapsto> \<lparr>StateID = Int64Value 1\<rparr>, ''beta'' \<mapsto> \<lparr>StateID = Int64Null\<rparr>]))"
  unfolding acme_def alpha_beta_def
  by (rule alpha_gamma_run) (simp add: one_page_client_def)

section \<open>Properties of readRepositories\<close>

text \<open>
  Claim C1. When the fetch reaches a page whose request fails (request number \<open>n\<close>, all
  earlier pages fetched without error), \<open>readRepositories\<close> returns the error of that
  page after exactly \<open>n + 1\<close> requests and leaves the map as it was: nothing of the pages
  fetched before the failure is merged. More generally, whenever \<open>readRepositories\<close> returns
  an error, the map is unchanged.
\<close>

theorem fetch_error_aborts_without_merging:
  assumes "client r = Some c"
    and "request_at c (owner r) initial_opt n = Some opt"
    and "ListByOrg c (owner r) opt = Inl err"
  shows "(\<exists>reqs. readRepositories r m = Some (Inr (reqs, Some err, m))
            \<and> length reqs = Suc n \<and> last reqs = opt)
         \<and> (\<forall>reqs e m'. readRepositories r m = Some (Inr (reqs, Some e, m')) \<longrightarrow> m' = m)"
proof
  from fetch_pages_fails[OF assms(2,3), of "[]" "[]"] obtain qs
    where "fetch_pages c (owner r) initial_opt [] [] = Some (qs, Inl err)"
      and "length qs = Suc n" and "last qs = opt"
    by auto
  with readRepositories_fetch_error[OF assms(1), of qs err m]
  show "\<exists>reqs. readRepositories r m = Some (Inr (reqs, Some err, m))
            \<and> length reqs = Suc n \<and> last reqs = opt"
    by blast
next
  show "\<forall>reqs e m'. readRepositories r m = Some (Inr (reqs, Some e, m')) \<longrightarrow> m' = m"
  proof (intro allI impI)
    fix reqs e m'
    assume "readRepositories r m = Some (Inr (reqs, Some e, m'))"
    from readRepositories_returns[OF assms(1) this] obtain res
      where "case res of
               Inl err \<Rightarrow> Some e = Some err \<and> m' = m
             | Inr allRepos \<Rightarrow> Some e = None \<and> set_repos allRepos m = Inr m'"
      by blast
    then show "m' = m" by (cases res) simp_all
  qed
qed

theorem fetch_error_aborts_without_merging_witness:
  "client (acme failing_client) = Some failing_client
   \<and> request_at failing_client (owner (acme failing_client)) initial_opt (Suc 0) =
       Some (initial_opt\<lparr>Page := 2\<rparr>)
   \<and> ListByOrg failing_client (owner (acme failing_client)) (initial_opt\<lparr>Page := 2\<rparr>) =
       Inl ''502 Bad Gateway''
   \<and> (\<exists>reqs. readRepositories (acme failing_client) alpha_beta =
               Some (Inr (reqs, Some ''502 Bad Gateway'', alpha_beta))
             \<and> length reqs = Suc (Suc 0) \<and> last reqs = initial_opt\<lparr>Page := 2\<rparr>)"
proof -
  have h1: "client (acme failing_client) = Some failing_client"
    by (simp add: acme_def)
  have h2: "request_at failing_client (owner (acme failing_client)) initial_opt (Suc 0) =
              Some (initial_opt\<lparr>Page := 2\<rparr>)"
    by (simp add: failing_client_def initial_opt_def)
  have h3: "ListByOrg failing_client (owner (acme failing_client)) (initial_opt\<lparr>Page := 2\<rparr>) =
              Inl ''502 Bad Gateway''"
    by (simp add: failing_client_def initial_opt_def)
  from fetch_error_aborts_without_merging[OF h1 h2 h3, of alpha_beta] h1 h2 h3
  show ?thesis by blast
qed

text \<open>
  Claim C2. After a successful \<open>readRepositories\<close> the map has the keys it had before: no
  key is added and none is removed. The entry of a name that no fetched record carries is
  unchanged. (An entry has the single field \<open>ID\<close>, so only the identifier of a listed name
  can change.)
\<close>

theorem reconcile_keeps_key_set:
  assumes "client r = Some c"
    and "readRepositories r m = Some (Inr (reqs, None, m'))"
  shows "dom m' = dom m
         \<and> (\<forall>k. list_all (\<lambda>p. \<not> is_named k p) (listing c (owner r) reqs) \<longrightarrow> m' k = m k)"
proof -
  note s = readRepositories_success(2)[OF assms]
  from s have "dom m' = dom m" by (rule set_repos_dom)
  moreover have "m' k = m k" if "list_all (\<lambda>p. \<not> is_named k p) (listing c (owner r) reqs)" for k
    using s that by (rule set_repos_unnamed)
  ultimately show ?thesis by blast
qed

theorem reconcile_keeps_key_set_witness:
  "client (acme one_page_client) = Some one_page_client
   \<and> readRepositories (acme one_page_client) alpha_beta =
       Some (Inr ([initial_opt], None,
         [''alpha'' \<mapsto> \<lparr>StateID = Int64Value 1\<rparr>, ''beta'' \<mapsto> \<lparr>StateID = Int64Null\<rparr>]))
   \<and> dom [''alpha'' \<mapsto> \<lparr>StateID = Int64Value 1\<rparr>, ''beta'' \<mapsto> \<lparr>StateID = Int64Null\<rparr>] = dom alpha_beta
   \<and> list_all (\<lambda>p. \<not> is_named ''beta'' p)
       (listing one_page_client (owner (acme one_page_client)) [initial_opt])
   \<and> [''alpha'' \<mapsto> \<lparr>StateID = Int64Value 1\<rparr>, ''beta'' \<mapsto> \<lparr>StateID = Int64Null\<rparr>] ''beta'' =
       alpha_beta ''beta''"
proof -
  have h1: "client (acme one_page_client) = Some one_page_client"
    by (simp add: acme_def)
  note h2 = acme_alpha_beta_run
  have h3: "list_all (\<lambda>p. \<not> is_named ''beta'' p)
              (listing one_page_client (owner (acme one_page_client)) [initial_opt])"
    by (simp add: listing_def page_records_def one_page_client_def is_named_def)
  from reconcile_keeps_key_set[OF h1 h2] h1 h2 h3 show ?thesis by blast
qed

text \<open>
  Claim C3. After a successful \<open>readRepositories\<close>, an entry whose name is the name of a
  fetched record holds the identifier of a fetched record of that name, and every other
  entry, present or absent, is as before. The call is successful whenever the listing is
  fetched in full and contains no nil pointer. For the map \<open>{alpha: null, beta: null}\<close> and
  the single page \<open>[{alpha, 1}, {gamma, 3}]\<close> with no next page the result is
  \<open>{alpha: 1, beta: null}\<close>.
\<close>

theorem reconcile_overwrites_matching_ids:
  "(client r = Some c \<and> readRepositories r m = Some (Inr (reqs, None, m')) \<longrightarrow>
      (\<forall>k. m k \<noteq> None \<and> list_ex (is_named k) (listing c (owner r) reqs) \<longrightarrow>
         (\<exists>repo i. Some repo \<in> set (listing c (owner r) reqs) \<and> Name repo = Some k
            \<and> ID repo = Some i \<and> m' k = Some \<lparr>StateID = Int64Value i\<rparr>))
      \<and> (\<forall>k. \<not> (m k \<noteq> None \<and> list_ex (is_named k) (listing c (owner r) reqs)) \<longrightarrow> m' k = m k))
   \<and> (client r = Some c \<and> fetch_pages c (owner r) initial_opt [] [] = Some (reqs, Inr allRepos)
        \<and> list_all well_formed allRepos \<longrightarrow>
      (\<exists>m2. readRepositories r m = Some (Inr (reqs, None, m2))))
   \<and> (ListByOrg c1 ownr initial_opt =
         Inr ([Some \<lparr>Name = Some ''alpha'', ID = Some 1\<rparr>, Some \<lparr>Name = Some ''gamma'', ID = Some 3\<rparr>],
              \<lparr>NextPage = 0\<rparr>) \<longrightarrow>
       readRepositories \<lparr>owner = ownr, client = Some c1\<rparr>
         [''alpha'' \<mapsto> \<lparr>StateID = Int64Null\<rparr>, ''beta'' \<mapsto> \<lparr>StateID = Int64Null\<rparr>] =
       Some (Inr ([initial_opt], None,
         [''alpha'' \<mapsto> \<lparr>StateID = Int64Value 1\<rparr>, ''beta'' \<mapsto> \<lparr>StateID = Int64Null\<rparr>])))"
proof (intro conjI impI allI)
  fix k
  assume run: "client r = Some c \<and> readRepositories r m = Some (Inr (reqs, None, m'))"
    and k: "m k \<noteq> None \<and> list_ex (is_named k) (listing c (owner r) reqs)"
  from run have "set_repos (listing c (owner r) reqs) m = Inr m'"
    by (blast intro: readRepositories_success(2))
  with k show "\<exists>repo i. Some repo \<in> set (listing c (owner r) reqs) \<and> Name repo = Some k
            \<and> ID repo = Some i \<and> m' k = Some \<lparr>StateID = Int64Value i\<rparr>"
    by (blast intro: set_repos_named)
next
  fix k
  assume run: "client r = Some c \<and> readRepositories r m = Some (Inr (reqs, None, m'))"
    and k: "\<not> (m k \<noteq> None \<and> list_ex (is_named k) (listing c (owner r) reqs))"
  from run have s: "set_repos (listing c (owner r) reqs) m = Inr m'"
    by (blast intro: readRepositories_success(2))
  show "m' k = m k"
  proof (cases "m k")
    case None
    with set_repos_dom[OF s] show ?thesis by (metis domIff)
  next
    case (Some old)
    with k have "list_all (\<lambda>p. \<not> is_named k p) (listing c (owner r) reqs)"
      by (simp add: list_ex_iff list_all_iff)
    with s show ?thesis by (rule set_repos_unnamed)
  qed
next
  assume a: "client r = Some c \<and> fetch_pages c (owner r) initial_opt [] [] = Some (reqs, Inr allRepos)
        \<and> list_all well_formed allRepos"
  then obtain m2 where "set_repos allRepos m = Inr m2"
    using set_repos_total by blast
  with a show "\<exists>m2. readRepositories r m = Some (Inr (reqs, None, m2))"
    by (simp add: readRepositories_fetched[of r c reqs allRepos m])
next
  assume "ListByOrg c1 ownr initial_opt =
         Inr ([Some \<lparr>Name = Some ''alpha'', ID = Some 1\<rparr>, Some \<lparr>Name = Some ''gamma'', ID = Some 3\<rparr>],
              \<lparr>NextPage = 0\<rparr>)"
  then show "readRepositories \<lparr>owner = ownr, client = Some c1\<rparr>
         [''alpha'' \<mapsto> \<lparr>StateID = Int64Null\<rparr>, ''beta'' \<mapsto> \<lparr>StateID = Int64Null\<rparr>] =
       Some (Inr ([initial_opt], None,
         [''alpha'' \<mapsto> \<lparr>StateID = Int64Value 1\<rparr>, ''beta'' \<mapsto> \<lparr>StateID = Int64Null\<rparr>]))"
    by (rule alpha_gamma_run)
qed

theorem reconcile_overwrites_matching_ids_witness:
  "ListByOrg one_page_client ''acme'' initial_opt =
     Inr ([Some \<lparr>Name = Some ''alpha'', ID = Some 1\<rparr>, Some \<lparr>Name = Some ''gamma'', ID = Some 3\<rparr>],
          \<lparr>NextPage = 0\<rparr>)
   \<and> readRepositories \<lparr>owner = ''acme'', client = Some one_page_client\<rparr>
         [''alpha'' \<mapsto> \<lparr>StateID = Int64Null\<rparr>, ''beta'' \<mapsto> \<lparr>StateID = Int64Null\<rparr>] =
       Some (Inr ([initial_opt], None,
         [''alpha'' \<mapsto> \<lparr>StateID = Int64Value 1\<rparr>, ''beta'' \<mapsto> \<lparr>StateID = Int64Null\<rparr>]))
   \<and> fetch_pages one_page_client ''acme'' initial_opt [] [] =
       Some ([initial_opt],
         Inr [Some \<lparr>Name = Some ''alpha'', ID = Some 1\<rparr>, Some \<lparr>Name = Some ''gamma'', ID = Some 3\<rparr>])
   \<and> list_all well_formed
       [Some \<lparr>Name = Some ''alpha'', ID = Some 1\<rparr>, Some \<lparr>Name = Some ''gamma'', ID = Some 3\<rparr>]
   \<and> (\<exists>m2. readRepositories \<lparr>owner = ''acme'', client = Some one_page_client\<rparr>
               [''alpha'' \<mapsto> \<lparr>StateID = Int64Null\<rparr>, ''beta'' \<mapsto> \<lparr>StateID = Int64Null\<rparr>] =
             Some (Inr ([initial_opt], None, m2)))
   \<and> list_ex (is_named ''alpha'') (listing one_page_client ''acme'' [initial_opt])
   \<and> (\<exists>repo i. Some repo \<in> set (listing one_page_client ''acme'' [initial_opt])
         \<and> Name repo = Some ''alpha'' \<and> ID repo = Some i
         \<and> [''alpha'' \<mapsto> \<lparr>StateID = Int64Value 1\<rparr>, ''beta'' \<mapsto> \<lparr>StateID = Int64Null\<rparr>] ''alpha'' =
             Some \<lparr>StateID = Int64Value i\<rparr>)
   \<and> \<not> list_ex (is_named ''beta'') (listing one_page_client ''acme'' [initial_opt])
   \<and> [''alpha'' \<mapsto> \<lparr>StateID = Int64Value 1\<rparr>, ''beta'' \<mapsto> \<lparr>StateID = Int64Null\<rparr>] ''beta'' =
       [''alpha'' \<mapsto> \<lparr>StateID = Int64Null\<rparr>, ''beta'' \<mapsto> \<lparr>StateID = Int64Null\<rparr>] ''beta''"
proof -
  let ?r = "\<lparr>owner = ''acme'', client = Some one_page_client\<rparr>"
  let ?m = "[''alpha'' \<mapsto> \<lparr>StateID = Int64Null\<rparr>, ''beta'' \<mapsto> \<lparr>StateID = Int64Null\<rparr>]"
  let ?m' = "[''alpha'' \<mapsto> \<lparr>StateID = Int64Value 1\<rparr>, ''beta'' \<mapsto> \<lparr>StateID = Int64Null\<rparr>]"
  let ?page = "[Some \<lparr>Name = Some ''alpha'', ID = Some 1\<rparr>, Some \<lparr>Name = Some ''gamma'', ID = Some 3\<rparr>]"
  note inst = reconcile_overwrites_matching_ids
    [where r = ?r and c = one_page_client and m = ?m and reqs = "[initial_opt]" and m' = ?m'
       and allRepos = ?page and ?c1.0 = one_page_client and ownr = "''acme''"]
  have h0: "ListByOrg one_page_client ''acme'' initial_opt =
     Inr ([Some \<lparr>Name = Some ''alpha'', ID = Some 1\<rparr>, Some \<lparr>Name = Some ''gamma'', ID = Some 3\<rparr>],
          \<lparr>NextPage = 0\<rparr>)"
    by (simp add: one_page_client_def)
  from inst h0 have run: "readRepositories ?r ?m = Some (Inr ([initial_opt], None, ?m'))"
    by blast
  have c: "client ?r = Some one_page_client" "owner ?r = ''acme''" by simp_all
  have a: "list_ex (is_named ''alpha'') (listing one_page_client ''acme'' [initial_opt])"
    by (simp add: listing_def page_records_def one_page_client_def is_named_def)
  have b: "\<not> list_ex (is_named ''beta'') (listing one_page_client ''acme'' [initial_opt])"
    by (simp add: listing_def page_records_def one_page_client_def is_named_def)
  have ma: "?m ''alpha'' \<noteq> None" by simp
  from inst run c a ma
  have "\<exists>repo i. Some repo \<in> set (listing one_page_client ''acme'' [initial_opt])
         \<and> Name repo = Some ''alpha'' \<and> ID repo = Some i
         \<and> ?m' ''alpha'' = Some \<lparr>StateID = Int64Value i\<rparr>"
    by (simp only: c; blast)
  moreover from inst run c b have "?m' ''beta'' = ?m ''beta''"
    by (simp only: c; blast)
  moreover have f: "fetch_pages one_page_client ''acme'' initial_opt [] [] = Some ([initial_opt], Inr ?page)"
    using h0 by (rule one_page_fetch)
  moreover have wf: "list_all well_formed ?page"
    by (simp add: well_formed_def)
  moreover from inst c f wf
  have "\<exists>m2. readRepositories ?r ?m = Some (Inr ([initial_opt], None, m2))"
    by (simp only: c; blast)
  ultimately show ?thesis using h0 run a b by blast
qed

text \<open>
  Claim C8. \<open>readRepositories\<close> is idempotent: run again on the map a successful run has
  left, against the same remote, it issues the same requests and leaves the same map.
\<close>

theorem reconcile_idempotent:
  assumes "readRepositories r m = Some (Inr (reqs, None, m'))"
  shows "readRepositories r m' = Some (Inr (reqs, None, m'))"
proof -
  from assms obtain c where c: "client r = Some c" by (rule readRepositories_client)
  note f = readRepositories_success(1)[OF c assms]
  from readRepositories_success(2)[OF c assms]
  have "set_repos (listing c (owner r) reqs) m' = Inr m'" by (rule set_repos_idem)
  then show ?thesis unfolding readRepositories_fetched[OF c f] by simp
qed

theorem reconcile_idempotent_witness:
  "readRepositories (acme one_page_client) alpha_beta =
     Some (Inr ([initial_opt], None,
       [''alpha'' \<mapsto> \<lparr>StateID = Int64Value 1\<rparr>, ''beta'' \<mapsto> \<lparr>StateID = Int64Null\<rparr>]))
   \<and> readRepositories (acme one_page_client)
       [''alpha'' \<mapsto> \<lparr>StateID = Int64Value 1\<rparr>, ''beta'' \<mapsto> \<lparr>StateID = Int64Null\<rparr>] =
     Some (Inr ([initial_opt], None,
       [''alpha'' \<mapsto> \<lparr>StateID = Int64Value 1\<rparr>, ''beta'' \<mapsto> \<lparr>StateID = Int64Null\<rparr>]))"
  using reconcile_idempotent[OF acme_alpha_beta_run] acme_alpha_beta_run by blast

text \<open>
  Claim C10. When several fetched records carry the same name and the name is a key of the
  map, the entry holds, after a successful \<open>readRepositories\<close>, the identifier of the last
  of them in the order of the accumulated pages.
\<close>

theorem last_record_of_a_name_wins:
  assumes "client r = Some c"
    and "readRepositories r m = Some (Inr (reqs, None, m'))"
    and "listing c (owner r) reqs = xs @ Some repo # ys"
    and "Name repo = Some k"
    and "list_all (\<lambda>p. \<not> is_named k p) ys"
    and "m k \<noteq> None"
  shows "\<exists>i. ID repo = Some i \<and> m' k = Some \<lparr>StateID = Int64Value i\<rparr>"
proof -
  from readRepositories_success(2)[OF assms(1,2)] assms(3)
  have "set_repos (xs @ Some repo # ys) m = Inr m'" by simp
  then show ?thesis using assms(4,6,5) by (rule set_repos_last)
qed


theorem last_record_of_a_name_wins_witness:
  "client (acme duplicates_client) = Some duplicates_client
   \<and> readRepositories (acme duplicates_client) alpha_only =
       Some (Inr ([initial_opt], None, [''alpha'' \<mapsto> \<lparr>StateID = Int64Value 2\<rparr>]))
   \<and> listing duplicates_client (owner (acme duplicates_client)) [initial_opt] =
       [Some \<lparr>Name = Some ''alpha'', ID = Some 1\<rparr>, Some \<lparr>Name = Some ''beta'', ID = Some 5\<rparr>]
         @ Some \<lparr>Name = Some ''alpha'', ID = Some 2\<rparr> # [Some \<lparr>Name = Some ''gamma'', ID = Some 7\<rparr>]
   \<and> list_all (\<lambda>p. \<not> is_named ''alpha'' p) [Some \<lparr>Name = Some ''gamma'', ID = Some 7\<rparr>]
   \<and> alpha_only ''alpha'' \<noteq> None
   \<and> (\<exists>i. ID \<lparr>Name = Some ''alpha'', ID = Some 2\<rparr> = Some i
         \<and> [''alpha'' \<mapsto> \<lparr>StateID = Int64Value 2\<rparr>] ''alpha'' = Some \<lparr>StateID = Int64Value i\<rparr>)"
proof -
  have h1: "client (acme duplicates_client) = Some duplicates_client"
    by (simp add: acme_def)
  have f: "fetch_pages duplicates_client (owner (acme duplicates_client)) initial_opt [] [] =
             Some ([initial_opt],
               Inr [Some \<lparr>Name = Some ''alpha'', ID = Some 1\<rparr>, Some \<lparr>Name = Some ''beta'', ID = Some 5\<rparr>,
                    Some \<lparr>Name = Some ''alpha'', ID = Some 2\<rparr>, Some \<lparr>Name = Some ''gamma'', ID = Some 7\<rparr>])"
    by (rule one_page_fetch) (simp add: duplicates_client_def)
  have h2: "readRepositories (acme duplicates_client) alpha_only =
       Some (Inr ([initial_opt], None, [''alpha'' \<mapsto> \<lparr>StateID = Int64Value 2\<rparr>]))"
    unfolding readRepositories_fetched[OF h1 f] by (simp add: alpha_only_def)
  have h3: "listing duplicates_client (owner (acme duplicates_client)) [initial_opt] =
       [Some \<lparr>Name = Some ''alpha'', ID = Some 1\<rparr>, Some \<lparr>Name = Some ''beta'', ID = Some 5\<rparr>]
         @ Some \<lparr>Name = Some ''alpha'', ID = Some 2\<rparr> # [Some \<lparr>Name = Some ''gamma'', ID = Some 7\<rparr>]"
    by (simp add: listing_def page_records_def duplicates_client_def)
  have h4: "Name \<lparr>Name = Some ''alpha'', ID = Some 2\<rparr> = Some ''alpha''" by simp
  have h5: "list_all (\<lambda>p. \<not> is_named ''alpha'' p) [Some \<lparr>Name = Some ''gamma'', ID = Some 7\<rparr>]"
    by (simp add: is_named_def)
  have h6: "alpha_only ''alpha'' \<noteq> None" by (simp add: alpha_only_def)
  from last_record_of_a_name_wins[OF h1 h2 h3 h4 h5 h6] h1 h2 h3 h5 h6
  show ?thesis by blast
qed

text \<open>The requests a returning call has issued are a page walk, with or without error.\<close>

lemma readRepositories_walk:
  assumes "client r = Some c" and "readRepositories r m = Some (Inr (reqs, e, m'))"
  shows "page_walk c (owner r) initial_opt reqs"
proof -
  from readRepositories_returns[OF assms] obtain res
    where "fetch_pages c (owner r) initial_opt [] [] = Some (reqs, res)"
    by blast
  from fetch_pages_returns[OF this] show ?thesis
    by (auto simp: fetched_from_def)
qed

text \<open>
  Claim C4. Every request of \<open>readRepositories\<close> asks for pages of 100 records sorted by
  \<open>full_name\<close>; the requests are the first one and then, as long as the page fetched
  announces a further page, the request for that page, and no other; the merge loop runs
  on the concatenation of all pages fetched; and the call returns as soon as the remote
  stops announcing a further page. For a listing on three pages of 100, 100 and 40 records
  it issues exactly three requests and merges all 240 records.
\<close>

theorem fetch_is_paginated:
  "(client r = Some c \<and> readRepositories r m = Some (Inr (reqs, e, m')) \<longrightarrow>
      list_all (\<lambda>q. Sort q = ''full_name'' \<and> PerPage q = 100) reqs
      \<and> page_walk c (owner r) initial_opt reqs
      \<and> (e = None \<longrightarrow> set_repos (listing c (owner r) reqs) m = Inr m'))
   \<and> (client r = Some c \<and> request_at c (owner r) initial_opt n = None \<longrightarrow>
        readRepositories r m \<noteq> None)
   \<and> (ListByOrg cl ownr initial_opt = Inr (pa, \<lparr>NextPage = nb\<rparr>) \<and> nb \<noteq> 0
        \<and> ListByOrg cl ownr (initial_opt\<lparr>Page := nb\<rparr>) = Inr (pb, \<lparr>NextPage = nc\<rparr>) \<and> nc \<noteq> 0
        \<and> ListByOrg cl ownr (initial_opt\<lparr>Page := nc\<rparr>) = Inr (pc, \<lparr>NextPage = 0\<rparr>)
        \<and> length pa = 100 \<and> length pb = 100 \<and> length pc = 40 \<longrightarrow>
      readRepositories \<lparr>owner = ownr, client = Some cl\<rparr> ma =
        Some (case set_repos (pa @ pb @ pc) ma of
                Inl p \<Rightarrow> Inl p
              | Inr m' \<Rightarrow>
                  Inr ([initial_opt, initial_opt\<lparr>Page := nb\<rparr>, initial_opt\<lparr>Page := nc\<rparr>], None, m'))
      \<and> length (pa @ pb @ pc) = 240)"
proof (intro conjI impI)
  assume run: "client r = Some c \<and> readRepositories r m = Some (Inr (reqs, e, m'))"
  then have c: "client r = Some c" and rr: "readRepositories r m = Some (Inr (reqs, e, m'))"
    by simp_all
  from c rr show w: "page_walk c (owner r) initial_opt reqs"
    by (rule readRepositories_walk)
  from page_walk_fixed[OF w]
  show "list_all (\<lambda>q. Sort q = ''full_name'' \<and> PerPage q = 100) reqs"
    by (simp add: initial_opt_def)
  assume "e = None"
  with c rr show "set_repos (listing c (owner r) reqs) m = Inr m'"
    by (simp add: readRepositories_success(2))
next
  assume a: "client r = Some c \<and> request_at c (owner r) initial_opt n = None"
  then obtain y where "fetch_pages c (owner r) initial_opt [] [] = Some y"
    using fetch_pages_terminates by blast
  with a show "readRepositories r m \<noteq> None"
    by (cases y; cases "snd y"; cases "set_repos (projr (snd y)) m")
       (simp_all add: readRepositories_def)
next
  assume a: "ListByOrg cl ownr initial_opt = Inr (pa, \<lparr>NextPage = nb\<rparr>) \<and> nb \<noteq> 0
        \<and> ListByOrg cl ownr (initial_opt\<lparr>Page := nb\<rparr>) = Inr (pb, \<lparr>NextPage = nc\<rparr>) \<and> nc \<noteq> 0
        \<and> ListByOrg cl ownr (initial_opt\<lparr>Page := nc\<rparr>) = Inr (pc, \<lparr>NextPage = 0\<rparr>)
        \<and> length pa = 100 \<and> length pb = 100 \<and> length pc = 40"
  then show "length (pa @ pb @ pc) = 240" by simp
  let ?r = "\<lparr>owner = ownr, client = Some cl\<rparr>"
  have c: "client ?r = Some cl" by simp
  from a have "fetch_pages cl ownr initial_opt [] [] =
           Some ([initial_opt, initial_opt\<lparr>Page := nb\<rparr>, initial_opt\<lparr>Page := nc\<rparr>],
                 Inr (pa @ pb @ pc))"
    by (intro three_page_fetch) simp_all
  then have f: "fetch_pages cl (owner ?r) initial_opt [] [] =
           Some ([initial_opt, initial_opt\<lparr>Page := nb\<rparr>, initial_opt\<lparr>Page := nc\<rparr>],
                 Inr (pa @ pb @ pc))"
    by simp
  show "readRepositories ?r ma =
        Some (case set_repos (pa @ pb @ pc) ma of
                Inl p \<Rightarrow> Inl p
              | Inr m' \<Rightarrow>
                  Inr ([initial_opt, initial_opt\<lparr>Page := nb\<rparr>, initial_opt\<lparr>Page := nc\<rparr>], None, m'))"
    by (rule readRepositories_fetched[OF c f])
qed


theorem fetch_is_paginated_witness:
  "ListByOrg three_page_client ''acme'' initial_opt =
     Inr (map example_repo [0..<100], \<lparr>NextPage = 2\<rparr>)
   \<and> ListByOrg three_page_client ''acme'' (initial_opt\<lparr>Page := 2\<rparr>) =
     Inr (map example_repo [100..<200], \<lparr>NextPage = 3\<rparr>)
   \<and> ListByOrg three_page_client ''acme'' (initial_opt\<lparr>Page := 3\<rparr>) =
     Inr (map example_repo [200..<240], \<lparr>NextPage = 0\<rparr>)
   \<and> length (map example_repo [0..<100] @ map example_repo [100..<200]
        @ map example_repo [200..<240]) = 240
   \<and> (\<exists>m'. readRepositories \<lparr>owner = ''acme'', client = Some three_page_client\<rparr>
               last_of_three_pages =
             Some (Inr ([initial_opt, initial_opt\<lparr>Page := 2\<rparr>, initial_opt\<lparr>Page := 3\<rparr>], None, m'))
         \<and> m' (replicate 240 CHR ''r'') = Some \<lparr>StateID = Int64Value 239\<rparr>)
   \<and> list_all (\<lambda>q. Sort q = ''full_name'' \<and> PerPage q = 100)
        [initial_opt, initial_opt\<lparr>Page := 2\<rparr>, initial_opt\<lparr>Page := 3\<rparr>]
   \<and> page_walk three_page_client ''acme'' initial_opt
        [initial_opt, initial_opt\<lparr>Page := 2\<rparr>, initial_opt\<lparr>Page := 3\<rparr>]
   \<and> request_at three_page_client ''acme'' initial_opt (Suc (Suc (Suc 0))) = None
   \<and> readRepositories \<lparr>owner = ''acme'', client = Some three_page_client\<rparr> last_of_three_pages
        \<noteq> None"
proof -
  let ?r = "\<lparr>owner = ''acme'', client = Some three_page_client\<rparr>"
  let ?pa = "map example_repo [0..<100]"
  let ?pb = "map example_repo [100..<200]"
  let ?pc = "map example_repo [200..<240]"
  let ?reqs = "[initial_opt, initial_opt\<lparr>Page := 2\<rparr>, initial_opt\<lparr>Page := 3\<rparr>]"
  let ?last = "\<lparr>Name = Some (replicate 240 CHR ''r''), ID = Some 239\<rparr>"
  have c: "client ?r = Some three_page_client" "owner ?r = ''acme''" by simp_all
  have ha: "ListByOrg three_page_client ''acme'' initial_opt = Inr (?pa, \<lparr>NextPage = 2\<rparr>)"
    by (simp add: three_page_client_def initial_opt_def)
  have hb: "ListByOrg three_page_client ''acme'' (initial_opt\<lparr>Page := 2\<rparr>) = Inr (?pb, \<lparr>NextPage = 3\<rparr>)"
    by (simp add: three_page_client_def initial_opt_def)
  have hc: "ListByOrg three_page_client ''acme'' (initial_opt\<lparr>Page := 3\<rparr>) = Inr (?pc, \<lparr>NextPage = 0\<rparr>)"
    by (simp add: three_page_client_def initial_opt_def)
  have len: "length ?pa = 100" "length ?pb = 100" "length ?pc = 40" by simp_all
  note inst = fetch_is_paginated
    [where r = ?r and c = three_page_client and m = last_of_three_pages and reqs = ?reqs
       and e = None and n = "Suc (Suc (Suc 0))" and cl = three_page_client and ownr = "''acme''"
       and pa = ?pa and pb = ?pb and pc = ?pc and nb = 2 and nc = 3 and ma = last_of_three_pages]
  from inst ha hb hc len
  have run: "readRepositories ?r last_of_three_pages =
        Some (case set_repos (?pa @ ?pb @ ?pc) last_of_three_pages of
                Inl p \<Rightarrow> Inl p
              | Inr m' \<Rightarrow> Inr (?reqs, None, m'))"
    and total: "length (?pa @ ?pb @ ?pc) = 240"
    by simp_all
  have "list_all well_formed (?pa @ ?pb @ ?pc)"
    by (simp add: list_all_iff well_formed_def example_repo_def)
  from set_repos_total[OF this] obtain m'
    where merged: "set_repos (?pa @ ?pb @ ?pc) last_of_three_pages = Inr m'"
    by blast
  with run have run': "readRepositories ?r last_of_three_pages = Some (Inr (?reqs, None, m'))"
    by simp
  have "[200..<240] = [200..<239] @ [239::nat]"
    using upt_Suc_append[of 200 239] by simp
  then have split: "?pa @ ?pb @ ?pc = (?pa @ ?pb @ map example_repo [200..<239]) @ Some ?last # []"
    by (simp add: example_repo_def)
  have "\<exists>i. ID ?last = Some i \<and> m' (replicate 240 CHR ''r'') = Some \<lparr>StateID = Int64Value i\<rparr>"
    by (rule set_repos_last[OF merged[unfolded split]])
       (simp_all add: last_of_three_pages_def)
  then have v: "m' (replicate 240 CHR ''r'') = Some \<lparr>StateID = Int64Value 239\<rparr>"
    by simp
  from inst[where m' = m'] run' c
  have w: "list_all (\<lambda>q. Sort q = ''full_name'' \<and> PerPage q = 100) ?reqs"
    "page_walk three_page_client ''acme'' initial_opt ?reqs"
    by simp_all
  have stop: "request_at three_page_client ''acme'' initial_opt (Suc (Suc (Suc 0))) = None"
    by (simp add: three_page_client_def initial_opt_def)
  with inst c have ret: "readRepositories ?r last_of_three_pages \<noteq> None"
    by simp
  from ha hb hc total run' v w stop ret show ?thesis by blast
qed

section \<open>Diagnostics without a prior error\<close>

lemma HasError_member: "d \<in> set ds \<Longrightarrow> Severity d = SeverityError \<Longrightarrow> HasError ds"
  by (auto simp: HasError_def list_ex_iff)

lemma Append_new_error:
  "\<not> HasError ds \<Longrightarrow> Severity d = SeverityError \<Longrightarrow> Append ds [d] = ds @ [d]"
  by (auto dest: HasError_member)

lemma HasError_append: "HasError (ds @ es) \<longleftrightarrow> HasError ds \<or> HasError es"
  by (simp add: HasError_def)

lemma Append_unknown_owner_after_token:
  "\<not> HasError ds \<Longrightarrow> Append (ds @ [unknown_token]) [unknown_owner] = ds @ [unknown_token, unknown_owner]"
  by (auto simp: unknown_token_def unknown_owner_def dest: HasError_member)

lemma Append_missing_owner_after_token:
  "\<not> HasError ds \<Longrightarrow> Append (ds @ [missing_token]) [missing_owner] = ds @ [missing_token, missing_owner]"
  by (auto simp: missing_token_def missing_owner_def dest: HasError_member)

lemma AddAttributeError_unknown_token:
  "AddAttributeError ds ''token'' (Summary unknown_token) (Detail unknown_token) = Append ds [unknown_token]"
  by (simp add: AddAttributeError_def unknown_token_def)

lemma AddAttributeError_unknown_owner:
  "AddAttributeError ds ''owner'' (Summary unknown_owner) (Detail unknown_owner) = Append ds [unknown_owner]"
  by (simp add: AddAttributeError_def unknown_owner_def)

lemma AddAttributeError_missing_token:
  "AddAttributeError ds ''token'' (Summary missing_token) (Detail missing_token) = Append ds [missing_token]"
  by (simp add: AddAttributeError_def missing_token_def)

lemma AddAttributeError_missing_owner:
  "AddAttributeError ds ''owner'' (Summary missing_owner) (Detail missing_owner) = Append ds [missing_owner]"
  by (simp add: AddAttributeError_def missing_owner_def)

lemma severity_diags [simp]:
  "Severity unknown_token = SeverityError" "Severity unknown_owner = SeverityError"
  "Severity missing_token = SeverityError" "Severity missing_owner = SeverityError"
  by (simp_all add: unknown_token_def unknown_owner_def missing_token_def missing_owner_def)

text \<open>The two checks for unknown values, on diagnostics without an error.\<close>

lemma unknown_checks_eq:
  assumes "\<not> HasError ds"
  shows "unknown_checks config ds =
           ds @ (if IsUnknown (Token config) then [unknown_token] else [])
              @ (if IsUnknown (Owner config) then [unknown_owner] else [])"
  using assms
  by (simp add: unknown_checks_def Let_def AddAttributeError_unknown_token
        AddAttributeError_unknown_owner Append_new_error Append_unknown_owner_after_token
      del: Append.simps)

lemma missing_checks_eq:
  assumes "\<not> HasError ds"
  shows "missing_checks token ownr ds =
           ds @ (if token = [] then [missing_token] else [])
              @ (if ownr = [] then [missing_owner] else [])"
  using assms
  by (simp add: missing_checks_def Let_def AddAttributeError_missing_token
        AddAttributeError_missing_owner Append_new_error Append_missing_owner_after_token
      del: Append.simps)

lemma HasError_single [simp]:
  "HasError [unknown_token]" "HasError [unknown_owner]" "HasError [missing_token]" "HasError [missing_owner]"
  by (simp_all add: HasError_def)

section \<open>Properties of the two Configure methods\<close>

text \<open>
  Claim C6. When the token or the owner is unknown, \<open>Configure\<close> adds one diagnostic for
  each unknown attribute and stops: no diagnostic for a missing value is added and no
  provider data is stored. With both unknown these are exactly two diagnostics, one for the
  attribute \<open>token\<close> and one for the attribute \<open>owner\<close>.
\<close>

theorem unknown_values_stop_resolution:
  assumes "\<not> HasError (Append (Diagnostics resp) diags)"
    and "IsUnknown (Token config) \<or> IsUnknown (Owner config)"
  shows "Diagnostics (githubreposProvider_Configure env newClient diags config resp) =
           Append (Diagnostics resp) diags
             @ (if IsUnknown (Token config) then [unknown_token] else [])
             @ (if IsUnknown (Owner config) then [unknown_owner] else [])
         \<and> ResourceData (githubreposProvider_Configure env newClient diags config resp) = ResourceData resp
         \<and> DataSourceData (githubreposProvider_Configure env newClient diags config resp) = DataSourceData resp
         \<and> (IsUnknown (Token config) \<and> IsUnknown (Owner config) \<longrightarrow>
              Diagnostics (githubreposProvider_Configure env newClient diags config resp) =
                Append (Diagnostics resp) diags @ [unknown_token, unknown_owner])
         \<and> AttributePath unknown_token = Some ''token'' \<and> AttributePath unknown_owner = Some ''owner''"
proof -
  let ?ds = "Append (Diagnostics resp) diags"
  let ?us = "(if IsUnknown (Token config) then [unknown_token] else [])
             @ (if IsUnknown (Owner config) then [unknown_owner] else [])"
  from assms(2) have err: "HasError (?ds @ ?us)"
    by (auto simp: HasError_append)
  have "githubreposProvider_Configure env newClient diags config resp =
          resp\<lparr>Diagnostics := ?ds @ ?us\<rparr>"
    using assms(1) err
    by (simp add: githubreposProvider_Configure_def Let_def unknown_checks_eq)
  then show ?thesis
    by (simp add: unknown_token_def unknown_owner_def)
qed


theorem unknown_values_stop_resolution_witness:
  "\<not> HasError (Append (Diagnostics empty_response) [])
   \<and> IsUnknown (Token both_unknown) \<and> IsUnknown (Owner both_unknown)
   \<and> Diagnostics (githubreposProvider_Configure Map.empty (Inr one_page_client) [] both_unknown
        empty_response) = [unknown_token, unknown_owner]
   \<and> ResourceData (githubreposProvider_Configure Map.empty (Inr one_page_client) [] both_unknown
        empty_response) = Nil_any
   \<and> IsUnknown (Token token_unknown) \<and> \<not> IsUnknown (Owner token_unknown)
   \<and> Diagnostics (githubreposProvider_Configure Map.empty (Inr one_page_client) [] token_unknown
        empty_response) = [unknown_token]
   \<and> ResourceData (githubreposProvider_Configure Map.empty (Inr one_page_client) [] token_unknown
        empty_response) = Nil_any"
proof -
  have h1: "\<not> HasError (Append (Diagnostics empty_response) [])"
    by (simp add: empty_response_def HasError_def)
  have u: "IsUnknown (Token both_unknown)" "IsUnknown (Owner both_unknown)"
    by (simp_all add: both_unknown_def)
  have t: "IsUnknown (Token token_unknown)" "\<not> IsUnknown (Owner token_unknown)"
    by (simp_all add: token_unknown_def)
  from u have h2: "IsUnknown (Token both_unknown) \<or> IsUnknown (Owner both_unknown)" by simp
  from t have h3: "IsUnknown (Token token_unknown) \<or> IsUnknown (Owner token_unknown)" by simp
  have e: "Diagnostics empty_response = []" "ResourceData empty_response = Nil_any"
    by (simp_all add: empty_response_def)
  from unknown_values_stop_resolution[OF h1 h2, of Map.empty "Inr one_page_client"]
    unknown_values_stop_resolution[OF h1 h3, of Map.empty "Inr one_page_client"]
    h1 u t
  show ?thesis by (simp add: e)
qed

text \<open>
  Claim C7. When token and owner are both null and both environment variables are empty
  or unset, \<open>Configure\<close> adds exactly two diagnostics, one for the missing token and one
  for the missing owner, and stores no provider data: the second check runs although the
  first has failed.
\<close>

theorem missing_values_both_reported:
  assumes "\<not> HasError (Append (Diagnostics resp) diags)"
    and "Token config = StringNull" and "Owner config = StringNull"
    and "Getenv env ''GITHUB_TOKEN'' = []" and "Getenv env ''GITHUB_OWNER'' = []"
  shows "Diagnostics (githubreposProvider_Configure env newClient diags config resp) =
           Append (Diagnostics resp) diags @ [missing_token, missing_owner]
         \<and> ResourceData (githubreposProvider_Configure env newClient diags config resp) = ResourceData resp
         \<and> DataSourceData (githubreposProvider_Configure env newClient diags config resp) = DataSourceData resp
         \<and> AttributePath missing_token = Some ''token'' \<and> AttributePath missing_owner = Some ''owner''"
proof -
  let ?ds = "Append (Diagnostics resp) diags"
  from assms(2,3) have u: "unknown_checks config ?ds = ?ds"
    using assms(1) by (simp add: unknown_checks_eq)
  from assms(2-5) have d: "default_values env config = ([], [])"
    by (simp add: default_values_def)
  have m: "missing_checks [] [] ?ds = ?ds @ [missing_token, missing_owner]"
    using assms(1) by (simp add: missing_checks_eq)
  have he: "HasError (?ds @ [missing_token, missing_owner])"
    by (simp add: HasError_def)
  have "githubreposProvider_Configure env newClient diags config resp =
          resp\<lparr>Diagnostics := ?ds @ [missing_token, missing_owner]\<rparr>"
    using assms(1) he
    by (simp add: githubreposProvider_Configure_def Let_def u d m)
  then show ?thesis
    by (simp add: missing_token_def missing_owner_def)
qed

theorem missing_values_both_reported_witness:
  "\<not> HasError (Append (Diagnostics empty_response) [])
   \<and> Token both_null = StringNull \<and> Owner both_null = StringNull
   \<and> Getenv Map.empty ''GITHUB_TOKEN'' = [] \<and> Getenv Map.empty ''GITHUB_OWNER'' = []
   \<and> Diagnostics (githubreposProvider_Configure Map.empty (Inr one_page_client) [] both_null
        empty_response) = [missing_token, missing_owner]
   \<and> ResourceData (githubreposProvider_Configure Map.empty (Inr one_page_client) [] both_null
        empty_response) = Nil_any"
proof -
  have h1: "\<not> HasError (Append (Diagnostics empty_response) [])"
    by (simp add: empty_response_def HasError_def)
  have h2: "Token both_null = StringNull" and h3: "Owner both_null = StringNull"
    by (simp_all add: both_null_def)
  have h4: "Getenv Map.empty ''GITHUB_TOKEN'' = []" and h5: "Getenv Map.empty ''GITHUB_OWNER'' = []"
    by (simp_all add: Getenv_def)
  have e: "Diagnostics empty_response = []" "ResourceData empty_response = Nil_any"
    by (simp_all add: empty_response_def)
  from missing_values_both_reported[OF h1 h2 h3 h4 h5, of "Inr one_page_client"] h1 h2 h3 h4 h5
  show ?thesis by (simp add: e)
qed

text \<open>
  Without a prior error and without an unknown value, the outcome of the provider's
  \<open>Configure\<close> is decided by the resolved token and owner.
\<close>

lemma configure_outcome_by_resolved_values:
  assumes noerr: "\<not> HasError (Append (Diagnostics resp) diags)"
    and tok: "Token config = StringValue tok
              \<or> Token config = StringNull \<and> tok = Getenv env ''GITHUB_TOKEN''"
    and own: "Owner config = StringValue own
              \<or> Owner config = StringNull \<and> own = Getenv env ''GITHUB_OWNER''"
  shows "githubreposProvider_Configure env newClient diags config resp =
           (if tok = [] \<or> own = []
            then resp\<lparr>Diagnostics := Append (Diagnostics resp) diags
                   @ (if tok = [] then [missing_token] else [])
                   @ (if own = [] then [missing_owner] else [])\<rparr>
            else case newClient of
                   Inl err \<Rightarrow>
                     resp\<lparr>Diagnostics := Append (Diagnostics resp) diags
                       @ [\<lparr>Severity = SeverityError, AttributePath = None,
                           Summary = ''Unable to Create GitHub API Client'',
                           Detail = ''An unexpected error occurred when creating the GitHub API client. '' @
                             ''If the error is not clear, please contact the provider developers.'' @
                             [CHR 0x0A, CHR 0x0A] @ ''GitHub Client Error: '' @ err\<rparr>]\<rparr>
                 | Inr cl \<Rightarrow>
                     resp\<lparr>Diagnostics := Append (Diagnostics resp) diags,
                          DataSourceData := GithubClientPtr cl,
                          ResourceData := GithubClientPtr cl\<rparr>)"
proof -
  let ?ds = "Append (Diagnostics resp) diags"
  let ?ms = "(if tok = [] then [missing_token] else []) @ (if own = [] then [missing_owner] else [])"
  from tok own have known: "\<not> IsUnknown (Token config)" "\<not> IsUnknown (Owner config)"
    by auto
  with noerr have u: "unknown_checks config ?ds = ?ds"
    by (simp add: unknown_checks_eq)
  from tok own have d: "default_values env config = (tok, own)"
    by (auto simp: default_values_def)
  from noerr have m: "missing_checks tok own ?ds = ?ds @ ?ms"
    by (rule missing_checks_eq)
  show ?thesis
  proof (cases "tok = [] \<or> own = []")
    case True
    then have "HasError (?ds @ ?ms)" by (auto simp: HasError_append)
    with noerr True show ?thesis
      by (simp add: githubreposProvider_Configure_def Let_def u d m)
  next
    case False
    then have ms: "?ms = []" by simp
    show ?thesis
    proof (cases newClient)
      case (Inl err)
      with noerr False show ?thesis
        by (simp add: githubreposProvider_Configure_def Let_def u d m AddError_def
              Append_new_error del: Append.simps)
    next
      case (Inr cl)
      with noerr False show ?thesis
        by (simp add: githubreposProvider_Configure_def Let_def u d m)
    qed
  qed
qed

lemma missing_token_not_prior:
  "\<not> HasError ds \<Longrightarrow> missing_token \<notin> set ds" "\<not> HasError ds \<Longrightarrow> missing_owner \<notin> set ds"
  by (auto dest: HasError_member)

lemma missing_distinct: "missing_token \<noteq> missing_owner"
  by (simp add: missing_token_def missing_owner_def)


lemma missing_token_reported:
  assumes noerr: "\<not> HasError (Append (Diagnostics resp) diags)"
    and tok: "Token config = StringValue tok
              \<or> Token config = StringNull \<and> tok = Getenv env ''GITHUB_TOKEN''"
    and own: "\<not> IsUnknown (Owner config)"
  shows "missing_token \<in> set (Diagnostics (githubreposProvider_Configure env newClient diags config resp))
           \<longleftrightarrow> tok = []"
proof -
  from own obtain own' where own': "Owner config = StringValue own'
              \<or> Owner config = StringNull \<and> own' = Getenv env ''GITHUB_OWNER''"
    by (cases "Owner config") auto
  note prior = missing_token_not_prior(1)[OF noerr]
  show ?thesis
    unfolding configure_outcome_by_resolved_values[OF noerr tok own']
    using prior missing_distinct
    by (cases newClient) (auto simp: missing_token_def)
qed

lemma missing_owner_reported:
  assumes noerr: "\<not> HasError (Append (Diagnostics resp) diags)"
    and tok: "\<not> IsUnknown (Token config)"
    and own: "Owner config = StringValue own
              \<or> Owner config = StringNull \<and> own = Getenv env ''GITHUB_OWNER''"
  shows "missing_owner \<in> set (Diagnostics (githubreposProvider_Configure env newClient diags config resp))
           \<longleftrightarrow> own = []"
proof -
  from tok obtain tok' where tok': "Token config = StringValue tok'
              \<or> Token config = StringNull \<and> tok' = Getenv env ''GITHUB_TOKEN''"
    by (cases "Token config") auto
  note prior = missing_token_not_prior(2)[OF noerr]
  show ?thesis
    unfolding configure_outcome_by_resolved_values[OF noerr tok' own]
    using prior missing_distinct
    by (cases newClient) (auto simp: missing_owner_def)
qed

text \<open>
  Claim C5. A token (an owner) given with a value in the configuration is the resolved
  token (owner), whatever the environment holds; a null one resolves to the value of
  \<open>GITHUB_TOKEN\<close> (\<open>GITHUB_OWNER\<close>). The resolved values decide the outcome of \<open>Configure\<close>:
  on a response without a prior error, and with \<open>tok\<close> and \<open>own\<close> the configuration value
  of a field that has one and the value of the environment variable of a field that is
  null, \<open>Configure\<close> reports a missing token exactly when \<open>tok\<close> is empty and a missing
  owner exactly when \<open>own\<close> is empty, and otherwise builds and stores the client. So a
  value given in the configuration decides, even when it is empty and the environment
  variable is not, and a null field is decided by the environment variable. When both
  fields are given with a value, the whole outcome is independent of the environment.
\<close>

theorem configuration_value_overrides_fallback:
  "(Token config = StringValue v \<longrightarrow> fst (default_values env config) = v)
   \<and> (Token config = StringNull \<longrightarrow> fst (default_values env config) = Getenv env ''GITHUB_TOKEN'')
   \<and> (Owner config = StringValue w \<longrightarrow> snd (default_values env config) = w)
   \<and> (Owner config = StringNull \<longrightarrow> snd (default_values env config) = Getenv env ''GITHUB_OWNER'')
   \<and> (Token config = StringValue v \<and> Owner config = StringValue w \<longrightarrow>
        githubreposProvider_Configure env newClient diags config resp =
        githubreposProvider_Configure env' newClient diags config resp)
   \<and> (\<not> HasError (Append (Diagnostics resp) diags)
        \<and> (Token config = StringValue tok
             \<or> Token config = StringNull \<and> tok = Getenv env ''GITHUB_TOKEN'')
        \<and> (Owner config = StringValue own
             \<or> Owner config = StringNull \<and> own = Getenv env ''GITHUB_OWNER'') \<longrightarrow>
        githubreposProvider_Configure env newClient diags config resp =
          (if tok = [] \<or> own = []
           then resp\<lparr>Diagnostics := Append (Diagnostics resp) diags
                  @ (if tok = [] then [missing_token] else [])
                  @ (if own = [] then [missing_owner] else [])\<rparr>
           else case newClient of
                  Inl err \<Rightarrow>
                    resp\<lparr>Diagnostics := Append (Diagnostics resp) diags
                      @ [\<lparr>Severity = SeverityError, AttributePath = None,
                          Summary = ''Unable to Create GitHub API Client'',
                          Detail = ''An unexpected error occurred when creating the GitHub API client. '' @
                            ''If the error is not clear, please contact the provider developers.'' @
                            [CHR 0x0A, CHR 0x0A] @ ''GitHub Client Error: '' @ err\<rparr>]\<rparr>
                | Inr cl \<Rightarrow>
                    resp\<lparr>Diagnostics := Append (Diagnostics resp) diags,
                         DataSourceData := GithubClientPtr cl,
                         ResourceData := GithubClientPtr cl\<rparr>))
   \<and> (\<not> HasError (Append (Diagnostics resp) diags)
        \<and> (Token config = StringValue tok
             \<or> Token config = StringNull \<and> tok = Getenv env ''GITHUB_TOKEN'')
        \<and> \<not> IsUnknown (Owner config) \<longrightarrow>
        (missing_token \<in> set (Diagnostics (githubreposProvider_Configure env newClient diags config resp))
           \<longleftrightarrow> tok = []))
   \<and> (\<not> HasError (Append (Diagnostics resp) diags)
        \<and> \<not> IsUnknown (Token config)
        \<and> (Owner config = StringValue own
             \<or> Owner config = StringNull \<and> own = Getenv env ''GITHUB_OWNER'') \<longrightarrow>
        (missing_owner \<in> set (Diagnostics (githubreposProvider_Configure env newClient diags config resp))
           \<longleftrightarrow> own = []))"
proof (intro conjI)
  show "Token config = StringValue v \<and> Owner config = StringValue w \<longrightarrow>
        githubreposProvider_Configure env newClient diags config resp =
        githubreposProvider_Configure env' newClient diags config resp"
  proof
    assume "Token config = StringValue v \<and> Owner config = StringValue w"
    then have eq: "default_values env config = default_values env' config"
      by (simp add: default_values_def)
    show "githubreposProvider_Configure env newClient diags config resp =
          githubreposProvider_Configure env' newClient diags config resp"
      unfolding githubreposProvider_Configure_def eq by (rule refl)
  qed
next
  show "\<not> HasError (Append (Diagnostics resp) diags)
        \<and> (Token config = StringValue tok
             \<or> Token config = StringNull \<and> tok = Getenv env ''GITHUB_TOKEN'')
        \<and> \<not> IsUnknown (Owner config) \<longrightarrow>
        (missing_token \<in> set (Diagnostics (githubreposProvider_Configure env newClient diags config resp))
           \<longleftrightarrow> tok = [])"
    using missing_token_reported[of resp diags config tok env newClient] by blast
next
  show "\<not> HasError (Append (Diagnostics resp) diags)
        \<and> \<not> IsUnknown (Token config)
        \<and> (Owner config = StringValue own
             \<or> Owner config = StringNull \<and> own = Getenv env ''GITHUB_OWNER'') \<longrightarrow>
        (missing_owner \<in> set (Diagnostics (githubreposProvider_Configure env newClient diags config resp))
           \<longleftrightarrow> own = [])"
    using missing_owner_reported[of resp diags config own env newClient] by blast
next
  show "\<not> HasError (Append (Diagnostics resp) diags)
        \<and> (Token config = StringValue tok
             \<or> Token config = StringNull \<and> tok = Getenv env ''GITHUB_TOKEN'')
        \<and> (Owner config = StringValue own
             \<or> Owner config = StringNull \<and> own = Getenv env ''GITHUB_OWNER'') \<longrightarrow>
        githubreposProvider_Configure env newClient diags config resp =
          (if tok = [] \<or> own = []
           then resp\<lparr>Diagnostics := Append (Diagnostics resp) diags
                  @ (if tok = [] then [missing_token] else [])
                  @ (if own = [] then [missing_owner] else [])\<rparr>
           else case newClient of
                  Inl err \<Rightarrow>
                    resp\<lparr>Diagnostics := Append (Diagnostics resp) diags
                      @ [\<lparr>Severity = SeverityError, AttributePath = None,
                          Summary = ''Unable to Create GitHub API Client'',
                          Detail = ''An unexpected error occurred when creating the GitHub API client. '' @
                            ''If the error is not clear, please contact the provider developers.'' @
                            [CHR 0x0A, CHR 0x0A] @ ''GitHub Client Error: '' @ err\<rparr>]\<rparr>
                | Inr cl \<Rightarrow>
                    resp\<lparr>Diagnostics := Append (Diagnostics resp) diags,
                         DataSourceData := GithubClientPtr cl,
                         ResourceData := GithubClientPtr cl\<rparr>)"
    using configure_outcome_by_resolved_values[of resp diags config tok env own newClient]
    by blast
qed (simp_all add: default_values_def)


theorem configuration_value_overrides_fallback_witness:
  "Token token_null = StringNull \<and> Owner token_null = StringValue ''acme''
   \<and> Getenv token_env ''GITHUB_TOKEN'' = ''envtoken''
   \<and> fst (default_values token_env token_null) = ''envtoken''
   \<and> snd (default_values token_env token_null) = ''acme''
   \<and> Token both_set = StringValue ''cfgtoken'' \<and> Owner both_set = StringValue ''acme''
   \<and> fst (default_values token_env both_set) = ''cfgtoken''
   \<and> githubreposProvider_Configure token_env (Inr one_page_client) [] both_set empty_response =
       githubreposProvider_Configure Map.empty (Inr one_page_client) [] both_set empty_response
   \<and> \<not> HasError (Append (Diagnostics empty_response) [])
   \<and> githubreposProvider_Configure token_env (Inr one_page_client) [] token_null empty_response =
       empty_response\<lparr>DataSourceData := GithubClientPtr one_page_client,
                      ResourceData := GithubClientPtr one_page_client\<rparr>
   \<and> missing_token \<notin> set (Diagnostics
         (githubreposProvider_Configure token_env (Inr one_page_client) [] token_null empty_response))
   \<and> Getenv Map.empty ''GITHUB_TOKEN'' = []
   \<and> githubreposProvider_Configure Map.empty (Inr one_page_client) [] token_null empty_response =
       empty_response\<lparr>Diagnostics := [missing_token]\<rparr>
   \<and> githubreposProvider_Configure Map.empty (Inr one_page_client) [] both_set empty_response =
       empty_response\<lparr>DataSourceData := GithubClientPtr one_page_client,
                      ResourceData := GithubClientPtr one_page_client\<rparr>
   \<and> Token empty_token = StringValue [] \<and> Owner empty_token = StringValue ''acme''
   \<and> githubreposProvider_Configure token_env (Inr one_page_client) [] empty_token empty_response =
       empty_response\<lparr>Diagnostics := [missing_token]\<rparr>
   \<and> missing_token \<in> set (Diagnostics
         (githubreposProvider_Configure token_env (Inr one_page_client) [] empty_token empty_response))"
proof -
  have n: "Token token_null = StringNull" "Owner token_null = StringValue ''acme''"
    by (simp_all add: token_null_def)
  have s: "Token both_set = StringValue ''cfgtoken''" "Owner both_set = StringValue ''acme''"
    by (simp_all add: both_set_def)
  have t: "Token empty_token = StringValue []" "Owner empty_token = StringValue ''acme''"
    by (simp_all add: empty_token_def)
  have g: "Getenv token_env ''GITHUB_TOKEN'' = ''envtoken''" "Getenv Map.empty ''GITHUB_TOKEN'' = []"
    by (simp_all add: Getenv_def token_env_def)
  have h: "\<not> HasError (Append (Diagnostics empty_response) [])"
    by (simp add: empty_response_def HasError_def)
  have e: "Diagnostics empty_response = []"
    "empty_response\<lparr>Diagnostics := []\<rparr> = empty_response"
    by (simp_all add: empty_response_def)
  note a = configuration_value_overrides_fallback
    [where config = token_null and env = token_env and w = "''acme''"
       and newClient = "Inr one_page_client" and diags = "[]" and resp = empty_response
       and tok = "''envtoken''" and own = "''acme''"]
  note b = configuration_value_overrides_fallback
    [where config = both_set and env = token_env and v = "''cfgtoken''" and w = "''acme''"
       and env' = Map.empty and newClient = "Inr one_page_client" and diags = "[]"
       and resp = empty_response]
  note c = configuration_value_overrides_fallback
    [where config = token_null and env = Map.empty
       and newClient = "Inr one_page_client" and diags = "[]" and resp = empty_response
       and tok = "[]" and own = "''acme''"]
  note d = configuration_value_overrides_fallback
    [where config = both_set and env = Map.empty
       and newClient = "Inr one_page_client" and diags = "[]" and resp = empty_response
       and tok = "''cfgtoken''" and own = "''acme''"]
  note f = configuration_value_overrides_fallback
    [where config = empty_token and env = token_env
       and newClient = "Inr one_page_client" and diags = "[]" and resp = empty_response
       and tok = "[]" and own = "''acme''"]
  from a n g have a1: "fst (default_values token_env token_null) = ''envtoken''"
    "snd (default_values token_env token_null) = ''acme''"
    by simp_all
  from a n g h
  have a2: "githubreposProvider_Configure token_env (Inr one_page_client) [] token_null empty_response =
       empty_response\<lparr>DataSourceData := GithubClientPtr one_page_client,
                      ResourceData := GithubClientPtr one_page_client\<rparr>"
    by (simp add: e)
  have k: "\<not> IsUnknown (Owner token_null)" "\<not> IsUnknown (Owner empty_token)"
    "''envtoken'' \<noteq> []"
    by (simp_all add: n t)
  from a n g(1)[symmetric] h k
  have a3: "missing_token \<notin> set (Diagnostics
         (githubreposProvider_Configure token_env (Inr one_page_client) [] token_null empty_response))"
    by blast
  from b s have b1: "fst (default_values token_env both_set) = ''cfgtoken''"
    "githubreposProvider_Configure token_env (Inr one_page_client) [] both_set empty_response =
       githubreposProvider_Configure Map.empty (Inr one_page_client) [] both_set empty_response"
    by simp_all
  from c n g h
  have c1: "githubreposProvider_Configure Map.empty (Inr one_page_client) [] token_null empty_response =
       empty_response\<lparr>Diagnostics := [missing_token]\<rparr>"
    by (simp add: e)
  from d s h
  have d1: "githubreposProvider_Configure Map.empty (Inr one_page_client) [] both_set empty_response =
       empty_response\<lparr>DataSourceData := GithubClientPtr one_page_client,
                      ResourceData := GithubClientPtr one_page_client\<rparr>"
    by (simp add: e)
  from f t h
  have f1: "githubreposProvider_Configure token_env (Inr one_page_client) [] empty_token empty_response =
       empty_response\<lparr>Diagnostics := [missing_token]\<rparr>"
    by (simp add: e)
  from f t h k
  have f2: "missing_token \<in> set (Diagnostics
         (githubreposProvider_Configure token_env (Inr one_page_client) [] empty_token empty_response))"
    by blast
  from n s t g h a1 a2 a3 b1 c1 d1 f1 f2 show ?thesis by blast
qed

text \<open>
  Claim C9, evaluated on a configuration that resolves without a diagnostic: the provider
  stores the bare \<open>*github.Client\<close> as resource data, without the owner; the resource's
  \<open>Configure\<close>, which expects a \<open>*Config\<close>, answers it with the diagnostic for an
  unexpected type and sets neither its client nor its owner, so that \<open>readRepositories\<close> on
  that resource dereferences a nil client.
\<close>

theorem stored_provider_data_is_rejected:
  "Diagnostics (githubreposProvider_Configure token_env (Inr one_page_client) [] both_set
      empty_response) = []
   \<and> ResourceData (githubreposProvider_Configure token_env (Inr one_page_client) [] both_set
      empty_response) = GithubClientPtr one_page_client
   \<and> allResource_Configure \<lparr>owner = [], client = None\<rparr>
       (ResourceData (githubreposProvider_Configure token_env (Inr one_page_client) [] both_set
          empty_response)) [] =
     (\<lparr>owner = [], client = None\<rparr>,
      [\<lparr>Severity = SeverityError, AttributePath = None,
        Summary = ''Unexpected Data Source Configure Type'',
        Detail = ''Expected Config, got: *github.Client. Please report this issue to the provider developers.''\<rparr>])
   \<and> readRepositories \<lparr>owner = [], client = None\<rparr> alpha_beta = Some (Inl NilPointerDereference)"
proof -
  have "githubreposProvider_Configure token_env (Inr one_page_client) [] both_set empty_response =
          empty_response\<lparr>DataSourceData := GithubClientPtr one_page_client,
                         ResourceData := GithubClientPtr one_page_client\<rparr>"
    by (simp add: githubreposProvider_Configure_def Let_def empty_response_def both_set_def
          unknown_checks_def default_values_def missing_checks_def HasError_def)
  then show ?thesis
    by (simp add: empty_response_def AddError_def readRepositories_def)
qed

end
